theory Spec2Isabelle
  imports Main "HOL-Library.Word"
begin

section \<open>Go values used by the dispatcher\<close>

text \<open>
  The embedding follows \<^verbatim>\<open>internal/dispatcher/worker.go\<close>. Everything the file calls
  outside itself (the JSON decoder, the clock, the AWS clients and the \<^verbatim>\<open>parsing\<close>
  package) is a field of the record \<open>env\<close>; everything it does that can be observed
  (a call, a log line, a lock operation, a sleep) is appended to the \<open>trace\<close> of the
  state, in program order.
\<close>

datatype go_error = Error string

type_synonym bytes = "8 word list"

text \<open>
  A \<^verbatim>\<open>time.Time\<close> is an instant, counted in nanoseconds from Go's zero time
  (1 January of year 1, UTC), so the zero value of a \<^verbatim>\<open>time.Time\<close> variable is \<open>0\<close>.
  A \<^verbatim>\<open>time.Duration\<close> is an \<^verbatim>\<open>int64\<close> of nanoseconds.
\<close>

type_synonym Time = int
type_synonym Duration = "64 word"

definition minDuration :: Duration where
  "minDuration = word_of_int (- (2 ^ 63))"

definition maxDuration :: Duration where
  "maxDuration = word_of_int (2 ^ 63 - 1)"

text \<open>\<^verbatim>\<open>t.Sub(u)\<close>: the difference, saturated at the ends of the \<^verbatim>\<open>int64\<close> range.\<close>

definition Time_Sub :: "Time \<Rightarrow> Time \<Rightarrow> Duration" where
  "Time_Sub t u =
     (let d = t - u in
      if d < - (2 ^ 63) then minDuration
      else if 2 ^ 63 - 1 < d then maxDuration
      else word_of_int d)"

text \<open>
  The dynamic values that \<^verbatim>\<open>encoding/json\<close> stores in a \<^verbatim>\<open>map[string]interface{}\<close>:
  \<^verbatim>\<open>nil\<close>, \<^verbatim>\<open>bool\<close>, \<^verbatim>\<open>float64\<close> (its 64 bits), \<^verbatim>\<open>string\<close>, \<^verbatim>\<open>[]interface{}\<close> and
  \<^verbatim>\<open>map[string]interface{}\<close>.
\<close>

datatype iface =
    INil
  | IBool bool
  | IFloat64 "64 word"
  | IString string
  | ISlice "iface list"
  | IMap "(string \<times> iface) list"

text \<open>
  The single-value type assertion \<^verbatim>\<open>m[k].(string)\<close>: a missing key reads as the nil
  interface, and every dynamic type but \<^verbatim>\<open>string\<close> panics (\<open>None\<close>).
\<close>

definition assertString :: "(string \<rightharpoonup> iface) \<Rightarrow> string \<Rightarrow> string option" where
  "assertString m k =
     (case m k of
        Some (IString s) \<Rightarrow> Some s
      | _ \<Rightarrow> None)"

record sqs_Message =
  Body :: "string option"
  ReceiptHandle :: "string option"

text \<open>The response body of \<^verbatim>\<open>GetObject\<close>, an \<^verbatim>\<open>io.ReadCloser\<close>.\<close>

record s3_Body =
  content :: bytes
  readErr :: "go_error option"
  closeErr :: "go_error option"

text \<open>
  The result of \<^verbatim>\<open>parsing.TidyUpGrobidResponse\<close>; \<^verbatim>\<open>Doi\<close> is the one field that the
  dispatcher reads.
\<close>

record tidyGrobidResponse =
  Doi :: string

section \<open>Observable events\<close>

datatype log_line =
    ErrorParsingMinGap go_error
  | StartingWorker int
  | ErrorDecodingJSON go_error
  | WorkerReceived int string string string
  | WorkerSleeping int Duration
  | ErrorDownloading go_error
  | BucketKey string string
  | ErrorSendingGrobid go_error
  | ErrorTidyingGrobid go_error
  | ErrorCrossReferencing go_error
  | ErrorPuttingBack go_error
  | ErrorClosingBody go_error

text \<open>
  A call of an external function is recorded with its arguments and with what it returned.
  A \<^verbatim>\<open>ReadAll\<close> or \<^verbatim>\<open>Close\<close> of a body returns what the body holds.
\<close>

datatype ('g, 'c) event =
    Log log_line
  | MutexLock
  | MutexUnlock
  | ReadLastRequestTime Time
  | WriteLastRequestTime Time
  | Sleep Duration
  | NewSession string "go_error option"
  | GetObject string string "go_error + s3_Body"
  | ReadAll s3_Body
  | BodyClose s3_Body
  | SendPDF2Grobid bytes "go_error + 'g"
  | TidyUpGrobidResponse 'g "go_error + tidyGrobidResponse"
  | CrossReferenceData string "go_error + 'c"
  | TidyCrossRefData 'c
  | ChangeMessageVisibility string "string option" "64 word" "go_error option"

section \<open>The environment and the state\<close>

text \<open>
  The functions that the file calls and does not define. \<^verbatim>\<open>envHelper.GetEnvVariable\<close> and
  the four functions of \<^verbatim>\<open>parsing\<close> belong to other packages of the repository, the rest
  to the Go library and the AWS SDK. A function that returns a value and an error is a
  function into a sum, \<open>Inl\<close> for a non-nil error; one that returns an error only is a
  function into \<open>go_error option\<close>. Within one call of \<^verbatim>\<open>processMessage\<close> each of them is
  called at most once, and each is taken to return. \<open>'g\<close> is the type of the crude Grobid
  response and \<open>'c\<close> the type of the crude CrossRef response. \<open>clock env n\<close> is the
  \<open>n\<close>-th reading of the clock, whichever of \<^verbatim>\<open>time.Now\<close> and \<^verbatim>\<open>time.Since\<close> takes it.
  \<open>s3_GetObject\<close> takes the client first, then the bucket and the key.
\<close>

record ('g, 'c) env =
  GetEnvVariable :: "string \<Rightarrow> string"
  time_ParseDuration :: "string \<Rightarrow> go_error + Duration"
  json_Unmarshal :: "string \<Rightarrow> go_error + (string \<rightharpoonup> iface)"
  clock :: "nat \<Rightarrow> Time"
  session_NewSession :: "string \<Rightarrow> go_error option"
  s3_GetObject :: "string \<Rightarrow> string \<Rightarrow> string \<Rightarrow> go_error + s3_Body"
  parsing_SendPDF2Grobid :: "bytes \<Rightarrow> go_error + 'g"
  parsing_TidyUpGrobidResponse :: "'g \<Rightarrow> go_error + tidyGrobidResponse"
  parsing_CrossReferenceData :: "string \<Rightarrow> go_error + 'c"
  sqs_ChangeMessageVisibility :: "string \<Rightarrow> string option \<Rightarrow> 64 word \<Rightarrow> go_error option"

text \<open>
  The two package-level variables, the number of clock readings taken so far, and the
  trace.
\<close>

record ('g, 'c) state =
  lastRequestTime :: Time
  lastRequestTimeMu :: bool
  clockReads :: nat
  trace :: "('g, 'c) event list"

definition initial :: "('g, 'c) state" where
  "initial = \<lparr>lastRequestTime = 0, lastRequestTimeMu = False, clockReads = 0, trace = []\<rparr>"

definition emit :: "('g, 'c) event \<Rightarrow> ('g, 'c) state \<Rightarrow> ('g, 'c) state" where
  "emit e st = st\<lparr>trace := trace st @ [e]\<rparr>"

definition time_Now :: "('g, 'c) env \<Rightarrow> ('g, 'c) state \<Rightarrow> Time \<times> ('g, 'c) state" where
  "time_Now env st = (clock env (clockReads st), st\<lparr>clockReads := Suc (clockReads st)\<rparr>)"

section \<open>downloadFileFromS3\<close>

text \<open>
  The result is the pair that the Go function returns: the bytes (\<open>None\<close> is the nil
  slice) and the error (\<open>None\<close> is nil). The deferred closure runs after the result is
  fixed and before the function returns. \<open>s3Svc\<close> is the client, which
  \<^verbatim>\<open>processMessage\<close> builds from the region.
\<close>

definition downloadFileFromS3 ::
  "('g, 'c) env \<Rightarrow> string \<Rightarrow> string \<Rightarrow> string \<Rightarrow> ('g, 'c) state \<Rightarrow>
     (bytes option \<times> go_error option) \<times> ('g, 'c) state" where
  "downloadFileFromS3 env s3Svc bucket path st =
     (let st1 = emit (GetObject bucket path (s3_GetObject env s3Svc bucket path)) st in
      case s3_GetObject env s3Svc bucket path of
        Inl err \<Rightarrow> ((None, Some err), st1)
      | Inr output \<Rightarrow>
          let st2 = emit (ReadAll output) st1;
              ret = (case readErr output of
                       Some err \<Rightarrow> (None, Some err)
                     | None \<Rightarrow> (Some (content output), None));
              st3 = emit (BodyClose output) st2;
              st4 = (case closeErr output of
                       Some err \<Rightarrow> emit (Log (ErrorClosingBody err)) st3
                     | None \<Rightarrow> st3)
          in (ret, st4))"

section \<open>How a call ends\<close>

text \<open>
  \<open>Returned\<close>: the function returned to its caller. \<open>Panicked\<close>: a run-time panic; no
  function of the file recovers, so it unwinds the goroutine and terminates the process.
  \<open>Exited\<close>: \<^verbatim>\<open>log.Fatalf\<close> ended the process. \<open>Blocked\<close>: the call waits for the mutex,
  which is held. \<open>AwaitingMessage\<close>: the worker waits on the channel, which is empty.
\<close>

datatype panic =
    NilPointerDereference
  | InterfaceConversion string
  | UnlockOfUnlockedMutex
  | SessionMust go_error

datatype outcome =
    Returned
  | Panicked panic
  | Exited
  | Blocked
  | AwaitingMessage

definition Mutex_Lock :: "('g, 'c) state \<Rightarrow> ('g, 'c) state option" where
  "Mutex_Lock st =
     (if lastRequestTimeMu st then None
      else Some (emit MutexLock (st\<lparr>lastRequestTimeMu := True\<rparr>)))"

definition Mutex_Unlock :: "('g, 'c) state \<Rightarrow> ('g, 'c) state option" where
  "Mutex_Unlock st =
     (if lastRequestTimeMu st
      then Some (emit MutexUnlock (st\<lparr>lastRequestTimeMu := False\<rparr>))
      else None)"

section \<open>createAWSSession\<close>

text \<open>
  \<^verbatim>\<open>session.Must\<close> panics when \<^verbatim>\<open>session.NewSession\<close> returns an error (\<open>Inl\<close>). A session
  is identified by its region.
\<close>

definition createAWSSession ::
  "('g, 'c) env \<Rightarrow> string \<Rightarrow> ('g, 'c) state \<Rightarrow> (go_error + string) \<times> ('g, 'c) state" where
  "createAWSSession env region st =
     (let st1 = emit (NewSession region (session_NewSession env region)) st in
      case session_NewSession env region of
        Some err \<Rightarrow> (Inl err, st1)
      | None \<Rightarrow> (Inr region, st1))"

section \<open>processMessage\<close>

text \<open>
  Lines 84 to 92: the elapsed time is read under the mutex; the comparison and the sleep
  follow the unlock.
\<close>

definition acquireRateGate ::
  "('g, 'c) env \<Rightarrow> int \<Rightarrow> Duration \<Rightarrow> ('g, 'c) state \<Rightarrow> outcome \<times> ('g, 'c) state" where
  "acquireRateGate env worker_id minGap st =
     (case Mutex_Lock st of
        None \<Rightarrow> (Blocked, st)
      | Some st1 \<Rightarrow>
          let st2 = emit (ReadLastRequestTime (lastRequestTime st1)) st1;
              (now, st3) = time_Now env st2;
              timeSinceLastRequest = Time_Sub now (lastRequestTime st1)
          in (case Mutex_Unlock st3 of
                None \<Rightarrow> (Panicked UnlockOfUnlockedMutex, st3)
              | Some st4 \<Rightarrow>
                  if sint timeSinceLastRequest < sint minGap then
                    let sleepTime = minGap - timeSinceLastRequest;
                        st5 = emit (Log (WorkerSleeping worker_id sleepTime)) st4
                    in (Returned, emit (Sleep sleepTime) st5)
                  else (Returned, st4)))"

text \<open>Lines 129 to 131.\<close>

definition stampLastRequestTime ::
  "('g, 'c) env \<Rightarrow> ('g, 'c) state \<Rightarrow> outcome \<times> ('g, 'c) state" where
  "stampLastRequestTime env st =
     (case Mutex_Lock st of
        None \<Rightarrow> (Blocked, st)
      | Some st1 \<Rightarrow>
          let (now, st2) = time_Now env st1;
              st3 = emit (WriteLastRequestTime now) (st2\<lparr>lastRequestTime := now\<rparr>)
          in (case Mutex_Unlock st3 of
                None \<Rightarrow> (Panicked UnlockOfUnlockedMutex, st3)
              | Some st4 \<Rightarrow> (Returned, st4)))"

text \<open>Lines 133 to 140.\<close>

definition extendVisibility ::
  "('g, 'c) env \<Rightarrow> sqs_Message \<Rightarrow> string \<Rightarrow> ('g, 'c) state \<Rightarrow> outcome \<times> ('g, 'c) state" where
  "extendVisibility env message sqsURL st =
     (let st1 = emit (ChangeMessageVisibility sqsURL (ReceiptHandle message) 30
                       (sqs_ChangeMessageVisibility env sqsURL (ReceiptHandle message) 30)) st in
      case sqs_ChangeMessageVisibility env sqsURL (ReceiptHandle message) 30 of
        Some err \<Rightarrow> (Returned, emit (Log (ErrorPuttingBack err)) st1)
      | None \<Rightarrow> (Returned, st1))"

text \<open>Lines 94 to 140, with \<open>path\<close> decoded.\<close>

definition runPipeline ::
  "('g, 'c) env \<Rightarrow> sqs_Message \<Rightarrow> string \<Rightarrow> string \<Rightarrow> string \<Rightarrow> string \<Rightarrow>
     ('g, 'c) state \<Rightarrow> outcome \<times> ('g, 'c) state" where
  "runPipeline env message sqsURL s3Bucket awsRegion path st =
     (case createAWSSession env awsRegion st of
        (Inl err, st1) \<Rightarrow> (Panicked (SessionMust err), st1)
      | (Inr sess, st1) \<Rightarrow>
     (case downloadFileFromS3 env sess s3Bucket path st1 of
        ((_, Some err), st2) \<Rightarrow>
          (Returned,
           emit (Log (BucketKey s3Bucket path)) (emit (Log (ErrorDownloading err)) st2))
      | ((fileContent, None), st2) \<Rightarrow>
     (let pdf = (case fileContent of None \<Rightarrow> [] | Some b \<Rightarrow> b);
          st3 = emit (SendPDF2Grobid pdf (parsing_SendPDF2Grobid env pdf)) st2 in
      case parsing_SendPDF2Grobid env pdf of
        Inl err \<Rightarrow> (Returned, emit (Log (ErrorSendingGrobid err)) st3)
      | Inr CrudeGrobidResponse \<Rightarrow>
     (let st4 = emit (TidyUpGrobidResponse CrudeGrobidResponse
                       (parsing_TidyUpGrobidResponse env CrudeGrobidResponse)) st3 in
      case parsing_TidyUpGrobidResponse env CrudeGrobidResponse of
        Inl err \<Rightarrow> (Returned, emit (Log (ErrorTidyingGrobid err)) st4)
      | Inr tidyGrobidResponse \<Rightarrow>
     (let st5 = emit (CrossReferenceData (Doi tidyGrobidResponse)
                       (parsing_CrossReferenceData env (Doi tidyGrobidResponse))) st4 in
      case parsing_CrossReferenceData env (Doi tidyGrobidResponse) of
        Inl err \<Rightarrow> (Returned, emit (Log (ErrorCrossReferencing err)) st5)
      | Inr crudeCrossRefResponse \<Rightarrow>
     (let st6 = emit (TidyCrossRefData crudeCrossRefResponse) st5 in
      case stampLastRequestTime env st6 of
        (Returned, st7) \<Rightarrow> extendVisibility env message sqsURL st7
      | (out, st7) \<Rightarrow> (out, st7)))))))"

text \<open>
  \<^verbatim>\<open>processMessage\<close>. The parameter \<^verbatim>\<open>svc\<close> is part of \<open>env\<close>, and the parameter \<^verbatim>\<open>id\<close> is
  \<open>worker_id\<close> here. Dereferencing a nil \<^verbatim>\<open>message.Body\<close> panics, and so does each of the
  three type assertions.
\<close>

definition processMessage ::
  "('g, 'c) env \<Rightarrow> int \<Rightarrow> sqs_Message \<Rightarrow> string \<Rightarrow> string \<Rightarrow> string \<Rightarrow> Duration \<Rightarrow>
     ('g, 'c) state \<Rightarrow> outcome \<times> ('g, 'c) state" where
  "processMessage env worker_id message sqsURL s3Bucket awsRegion minGap st =
     (case Body message of
        None \<Rightarrow> (Panicked NilPointerDereference, st)
      | Some body \<Rightarrow>
     (case json_Unmarshal env body of
        Inl err \<Rightarrow> (Returned, emit (Log (ErrorDecodingJSON err)) st)
      | Inr msgData \<Rightarrow>
     (case assertString msgData ''s3Location'' of
        None \<Rightarrow> (Panicked (InterfaceConversion ''s3Location''), st)
      | Some path \<Rightarrow>
     (case assertString msgData ''user_id'' of
        None \<Rightarrow> (Panicked (InterfaceConversion ''user_id''), st)
      | Some userID \<Rightarrow>
     (case assertString msgData ''screen_id'' of
        None \<Rightarrow> (Panicked (InterfaceConversion ''screen_id''), st)
      | Some screenID \<Rightarrow>
     (let st1 = emit (Log (WorkerReceived worker_id path userID screenID)) st in
      case acquireRateGate env worker_id minGap st1 of
        (Returned, st2) \<Rightarrow> runPipeline env message sqsURL s3Bucket awsRegion path st2
      | (out, st2) \<Rightarrow> (out, st2)))))))"

section \<open>Worker\<close>

text \<open>
  The loop of \<^verbatim>\<open>Worker\<close> over the messages that the channel delivers, in order. The loop
  has no exit: it ends when a call panics, and otherwise waits for the next message.
\<close>

fun workerLoop ::
  "('g, 'c) env \<Rightarrow> int \<Rightarrow> sqs_Message list \<Rightarrow> string \<Rightarrow> string \<Rightarrow> string \<Rightarrow> Duration \<Rightarrow>
     ('g, 'c) state \<Rightarrow> outcome \<times> ('g, 'c) state" where
  "workerLoop env worker_id [] sqsURL s3Bucket awsRegion minGap st = (AwaitingMessage, st)"
| "workerLoop env worker_id (message # messageQueue) sqsURL s3Bucket awsRegion minGap st =
     (case processMessage env worker_id message sqsURL s3Bucket awsRegion minGap st of
        (Returned, st1) \<Rightarrow> workerLoop env worker_id messageQueue sqsURL s3Bucket awsRegion minGap st1
      | (out, st1) \<Rightarrow> (out, st1))"

definition Worker ::
  "('g, 'c) env \<Rightarrow> int \<Rightarrow> sqs_Message list \<Rightarrow> string \<Rightarrow> string \<Rightarrow> ('g, 'c) state \<Rightarrow>
     outcome \<times> ('g, 'c) state" where
  "Worker env worker_id messageQueue sqsURL s3Bucket st =
     (let awsRegion = GetEnvVariable env ''AWS_REGION'';
          minGapBetweenRequests = GetEnvVariable env ''MINIMUM_GAP_BETWEEN_REQUESTS_SECONDS''
      in case time_ParseDuration env (minGapBetweenRequests @ ''s'') of
           Inl err \<Rightarrow> (Exited, emit (Log (ErrorParsingMinGap err)) st)
         | Inr minGap \<Rightarrow>
             workerLoop env worker_id messageQueue sqsURL s3Bucket awsRegion minGap
               (emit (Log (StartingWorker worker_id)) st))"

section \<open>Two workers at the rate gate\<close>

text \<open>
  The program points of one worker in lines 84 to 92: before the lock (line 84), before
  \<^verbatim>\<open>time.Since\<close> (line 85), before the unlock (line 86) with the elapsed time that was
  read, before the comparison (line 88), inside \<^verbatim>\<open>time.Sleep\<close> (line 91) with the duration
  of the sleep, and past the gate.
\<close>

datatype gate_pc =
    AtLock
  | AtSince
  | AtUnlock Duration
  | AtCompare Duration
  | AtSleep Duration
  | PastGate

text \<open>
  One step of one worker. \<open>None\<close>: the worker cannot move, because it waits for the mutex
  or is past the gate. The step from \<open>AtSleep\<close> is the return of \<^verbatim>\<open>time.Sleep\<close>.
\<close>

fun gateStep ::
  "('g, 'c) env \<Rightarrow> int \<Rightarrow> Duration \<Rightarrow> gate_pc \<Rightarrow> ('g, 'c) state \<Rightarrow>
     (gate_pc \<times> ('g, 'c) state) option" where
  "gateStep env worker_id minGap AtLock st =
     (case Mutex_Lock st of None \<Rightarrow> None | Some st1 \<Rightarrow> Some (AtSince, st1))"
| "gateStep env worker_id minGap AtSince st =
     (let st2 = emit (ReadLastRequestTime (lastRequestTime st)) st;
          (now, st3) = time_Now env st2
      in Some (AtUnlock (Time_Sub now (lastRequestTime st)), st3))"
| "gateStep env worker_id minGap (AtUnlock timeSinceLastRequest) st =
     (case Mutex_Unlock st of
        None \<Rightarrow> None
      | Some st4 \<Rightarrow> Some (AtCompare timeSinceLastRequest, st4))"
| "gateStep env worker_id minGap (AtCompare timeSinceLastRequest) st =
     (if sint timeSinceLastRequest < sint minGap then
        let sleepTime = minGap - timeSinceLastRequest;
            st5 = emit (Log (WorkerSleeping worker_id sleepTime)) st
        in Some (AtSleep sleepTime, emit (Sleep sleepTime) st5)
      else Some (PastGate, st))"
| "gateStep env worker_id minGap (AtSleep sleepTime) st = Some (PastGate, st)"
| "gateStep env worker_id minGap PastGate st = None"

text \<open>
  Two workers, with the ids 1 and 2, on the shared state. A schedule names the worker
  that takes each step; \<open>None\<close>: the schedule asks a worker to move that cannot.
\<close>

datatype worker = WorkerA | WorkerB

fun runWorkers ::
  "('g, 'c) env \<Rightarrow> Duration \<Rightarrow> worker list \<Rightarrow> gate_pc \<times> gate_pc \<times> ('g, 'c) state \<Rightarrow>
     (gate_pc \<times> gate_pc \<times> ('g, 'c) state) option" where
  "runWorkers env minGap [] c = Some c"
| "runWorkers env minGap (WorkerA # schedule) (pcA, pcB, st) =
     (case gateStep env 1 minGap pcA st of
        None \<Rightarrow> None
      | Some (pcA', st') \<Rightarrow> runWorkers env minGap schedule (pcA', pcB, st'))"
| "runWorkers env minGap (WorkerB # schedule) (pcA, pcB, st) =
     (case gateStep env 2 minGap pcB st of
        None \<Rightarrow> None
      | Some (pcB', st') \<Rightarrow> runWorkers env minGap schedule (pcA, pcB', st'))"

text \<open>The program points between the lock and the unlock, and the one inside the sleep.\<close>

fun inCriticalSection :: "gate_pc \<Rightarrow> bool" where
  "inCriticalSection AtSince = True"
| "inCriticalSection (AtUnlock d) = True"
| "inCriticalSection pc = False"

fun isAtSleep :: "gate_pc \<Rightarrow> bool" where
  "isAtSleep (AtSleep d) = True"
| "isAtSleep pc = False"

text \<open>
  The mutex is held exactly when one of the two workers is between its lock and its
  unlock, and the two are never there together.
\<close>

definition mutexInvariant :: "gate_pc \<times> gate_pc \<times> ('g, 'c) state \<Rightarrow> bool" where
  "mutexInvariant c =
     (case c of
        (pcA, pcB, st) \<Rightarrow>
          lastRequestTimeMu st = (inCriticalSection pcA \<or> inCriticalSection pcB) \<and>
          \<not> (inCriticalSection pcA \<and> inCriticalSection pcB))"

section \<open>Reading a trace\<close>

text \<open>The events that a call has appended to the trace.\<close>

definition newEvents :: "('g, 'c) state \<Rightarrow> ('g, 'c) state \<Rightarrow> ('g, 'c) event list" where
  "newEvents st st' = drop (length (trace st)) (trace st')"

text \<open>
  The calls of the pipeline stages: the storage fetch, the extraction, the normalization,
  the enrichment lookup with its tidying, and the visibility extension.
\<close>

fun isStageCall :: "('g, 'c) event \<Rightarrow> bool" where
  "isStageCall (GetObject b k r) = True"
| "isStageCall (SendPDF2Grobid d r) = True"
| "isStageCall (TidyUpGrobidResponse g r) = True"
| "isStageCall (CrossReferenceData d r) = True"
| "isStageCall (TidyCrossRefData c) = True"
| "isStageCall (ChangeMessageVisibility u h t r) = True"
| "isStageCall e = False"

fun isNewSession :: "('g, 'c) event \<Rightarrow> bool" where
  "isNewSession (NewSession region r) = True"
| "isNewSession e = False"

fun isGetObject :: "('g, 'c) event \<Rightarrow> bool" where
  "isGetObject (GetObject b k r) = True"
| "isGetObject e = False"

fun isStreamOp :: "('g, 'c) event \<Rightarrow> bool" where
  "isStreamOp (ReadAll b) = True"
| "isStreamOp (BodyClose b) = True"
| "isStreamOp e = False"

fun isSendPDF2Grobid :: "('g, 'c) event \<Rightarrow> bool" where
  "isSendPDF2Grobid (SendPDF2Grobid d r) = True"
| "isSendPDF2Grobid e = False"

fun isTidyCrossRefData :: "('g, 'c) event \<Rightarrow> bool" where
  "isTidyCrossRefData (TidyCrossRefData c) = True"
| "isTidyCrossRefData e = False"

fun isChangeMessageVisibility :: "('g, 'c) event \<Rightarrow> bool" where
  "isChangeMessageVisibility (ChangeMessageVisibility u h t r) = True"
| "isChangeMessageVisibility e = False"

text \<open>The rate gate's own events: the read of the shared timestamp and the sleep.\<close>

fun isGateEvent :: "('g, 'c) event \<Rightarrow> bool" where
  "isGateEvent (ReadLastRequestTime t) = True"
| "isGateEvent (Sleep d) = True"
| "isGateEvent e = False"

fun isSleep :: "('g, 'c) event \<Rightarrow> bool" where
  "isSleep (Sleep d) = True"
| "isSleep e = False"

fun isStamp :: "('g, 'c) event \<Rightarrow> bool" where
  "isStamp (WriteLastRequestTime t) = True"
| "isStamp e = False"

text \<open>
  The four calls whose error ends the processing of a message, each with a successful
  result: the fetch (the body was opened and read to its end), the extraction, the
  normalization and the enrichment lookup.
\<close>

fun fetchSucceeded :: "('g, 'c) event \<Rightarrow> bool" where
  "fetchSucceeded (ReadAll b) = (readErr b = None)"
| "fetchSucceeded e = False"

fun extractionSucceeded :: "('g, 'c) event \<Rightarrow> bool" where
  "extractionSucceeded (SendPDF2Grobid d (Inr g)) = True"
| "extractionSucceeded e = False"

fun normalizationSucceeded :: "('g, 'c) event \<Rightarrow> bool" where
  "normalizationSucceeded (TidyUpGrobidResponse g (Inr t)) = True"
| "normalizationSucceeded e = False"

fun enrichmentSucceeded :: "('g, 'c) event \<Rightarrow> bool" where
  "enrichmentSucceeded (CrossReferenceData d (Inr c)) = True"
| "enrichmentSucceeded e = False"

text \<open>The same four calls, each with an error.\<close>

fun stageFailed :: "('g, 'c) event \<Rightarrow> bool" where
  "stageFailed (GetObject b k (Inl err)) = True"
| "stageFailed (ReadAll b) = (readErr b \<noteq> None)"
| "stageFailed (SendPDF2Grobid d (Inl err)) = True"
| "stageFailed (TidyUpGrobidResponse g (Inl err)) = True"
| "stageFailed (CrossReferenceData d (Inl err)) = True"
| "stageFailed e = False"

text \<open>
  \<open>lockDiscipline held evs\<close>: along \<open>evs\<close>, started with the mutex held or not, every
  lock finds the mutex free and every unlock finds it held, the shared timestamp is read
  and written only while the mutex is held, and every other event (the sleep, the calls,
  the log lines) happens while it is not held.
\<close>

fun lockDiscipline :: "bool \<Rightarrow> ('g, 'c) event list \<Rightarrow> bool" where
  "lockDiscipline held [] = True"
| "lockDiscipline held (MutexLock # evs) = (\<not> held \<and> lockDiscipline True evs)"
| "lockDiscipline held (MutexUnlock # evs) = (held \<and> lockDiscipline False evs)"
| "lockDiscipline held (ReadLastRequestTime t # evs) = (held \<and> lockDiscipline held evs)"
| "lockDiscipline held (WriteLastRequestTime t # evs) = (held \<and> lockDiscipline held evs)"
| "lockDiscipline held (e # evs) = (\<not> held \<and> lockDiscipline held evs)"

text \<open>The log line of the deferred closure, when closing the body fails.\<close>

abbreviation closeLog :: "s3_Body \<Rightarrow> ('g, 'c) event list" where
  "closeLog body \<equiv>
     (case closeErr body of Some err \<Rightarrow> [Log (ErrorClosingBody err)] | None \<Rightarrow> [])"

text \<open>The elapsed time that the gate computes in state \<open>st\<close>, and its sleep.\<close>

abbreviation elapsed :: "('g, 'c) env \<Rightarrow> ('g, 'c) state \<Rightarrow> Duration" where
  "elapsed env st \<equiv> Time_Sub (clock env (clockReads st)) (lastRequestTime st)"

abbreviation sleepEvents ::
  "('g, 'c) env \<Rightarrow> int \<Rightarrow> Duration \<Rightarrow> ('g, 'c) state \<Rightarrow> ('g, 'c) event list" where
  "sleepEvents env worker_id minGap st \<equiv>
     (if sint (elapsed env st) < sint minGap
      then [Log (WorkerSleeping worker_id (minGap - elapsed env st)),
            Sleep (minGap - elapsed env st)]
      else [])"

text \<open>
  The Unix epoch as a \<^verbatim>\<open>time.Time\<close>: 62135596800 seconds after the zero time
  (\<^verbatim>\<open>unixToInternal\<close> in Go's \<^verbatim>\<open>time\<close> package).
\<close>

definition unixEpoch :: Time where
  "unixEpoch = 62135596800 * 1000000000"

section \<open>Example data\<close>

text \<open>
  Scenario A: a well-formed message, an object of four bytes, and services that all
  answer. The clock starts in the year 2025 and advances by one second at each reading.
  A second body differs from the first in \<^verbatim>\<open>user_id\<close> and \<^verbatim>\<open>screen_id\<close>, and a third
  decodes to an object with no \<^verbatim>\<open>screen_id\<close>.
\<close>

definition bodyA :: string where
  \<open>bodyA = ''{"s3Location":"docs/1.pdf","user_id":"u1","screen_id":"s1"}''\<close>

definition bodyB :: string where
  \<open>bodyB = ''{"s3Location":"docs/1.pdf","user_id":"u2","screen_id":"s2"}''\<close>

definition bodyNoScreenId :: string where
  \<open>bodyNoScreenId = ''{"s3Location":"docs/1.pdf","user_id":"u1"}''\<close>

definition objectA :: s3_Body where
  "objectA = \<lparr>content = [37, 80, 68, 70], readErr = None, closeErr = None\<rparr>"

definition exampleEnv :: "(string, string) env" where
  "exampleEnv =
     \<lparr>GetEnvVariable = (\<lambda>k. if k = ''AWS_REGION'' then ''eu-west-2'' else ''5''),
      time_ParseDuration =
        (\<lambda>s. if s = ''5s'' then Inr 5000000000 else Inl (Error ''time: invalid duration'')),
      json_Unmarshal =
        (\<lambda>b. if b = bodyA
             then Inr [''s3Location'' \<mapsto> IString ''docs/1.pdf'',
                       ''user_id'' \<mapsto> IString ''u1'',
                       ''screen_id'' \<mapsto> IString ''s1'']
             else if b = bodyB
             then Inr [''s3Location'' \<mapsto> IString ''docs/1.pdf'',
                       ''user_id'' \<mapsto> IString ''u2'',
                       ''screen_id'' \<mapsto> IString ''s2'']
             else if b = bodyNoScreenId
             then Inr [''s3Location'' \<mapsto> IString ''docs/1.pdf'',
                       ''user_id'' \<mapsto> IString ''u1'']
             else Inl (Error ''invalid character'')),
      clock = (\<lambda>n. 63900000000000000000 + 1000000000 * int n),
      session_NewSession = (\<lambda>region. None),
      s3_GetObject =
        (\<lambda>region bucket key. if key = ''docs/1.pdf'' then Inr objectA
                             else Inl (Error ''NoSuchKey'')),
      parsing_SendPDF2Grobid = (\<lambda>pdf. Inr ''<TEI/>''),
      parsing_TidyUpGrobidResponse = (\<lambda>crude. Inr \<lparr>Doi = ''10.1/x''\<rparr>),
      parsing_CrossReferenceData = (\<lambda>doi. Inr ''{}''),
      sqs_ChangeMessageVisibility = (\<lambda>url handle timeout. None)\<rparr>"

definition messageA :: sqs_Message where
  "messageA = \<lparr>Body = Some bodyA, ReceiptHandle = Some ''rh-1''\<rparr>"

definition messageB :: sqs_Message where
  "messageB = \<lparr>Body = Some bodyB, ReceiptHandle = Some ''rh-1''\<rparr>"

definition messageNoScreenId :: sqs_Message where
  "messageNoScreenId = \<lparr>Body = Some bodyNoScreenId, ReceiptHandle = Some ''rh-2''\<rparr>"

text \<open>The services of Scenario A with a normalization that fails.\<close>

definition envTidyFails :: "(string, string) env" where
  "envTidyFails =
     exampleEnv\<lparr>parsing_TidyUpGrobidResponse := (\<lambda>crude. Inl (Error ''no TEI header''))\<rparr>"

text \<open>The services of Scenario A with a visibility extension that fails.\<close>

definition envExtensionFails :: "(string, string) env" where
  "envExtensionFails =
     exampleEnv\<lparr>sqs_ChangeMessageVisibility :=
       (\<lambda>url handle timeout. Some (Error ''ReceiptHandleIsInvalid''))\<rparr>"

text \<open>A state whose last request was stamped one second before the first clock reading.\<close>

definition stampedRecently :: "(string, string) state" where
  "stampedRecently = initial\<lparr>lastRequestTime := 63899999999000000000\<rparr>"

text \<open>The services of Scenario A with a storage that does not hold the object.\<close>

definition envNotFound :: "(string, string) env" where
  "envNotFound =
     exampleEnv\<lparr>s3_GetObject := (\<lambda>region bucket key. Inl (Error ''NoSuchKey''))\<rparr>"

text \<open>The services of Scenario A with a clock that advances by ten seconds at each reading.\<close>

definition envSlowClock :: "(string, string) env" where
  "envSlowClock = exampleEnv\<lparr>clock := (\<lambda>n. 63900000000000000000 + 10000000000 * int n)\<rparr>"

text \<open>The initial state with the mutex held.\<close>

definition mutexHeld :: "(string, string) state" where
  "mutexHeld = initial\<lparr>lastRequestTimeMu := True\<rparr>"

text \<open>
  Worker 1 processes a message with a minimum gap of five seconds, as a worker of
  region \<^verbatim>\<open>eu-west-2\<close> on the bucket \<^verbatim>\<open>papers\<close>.
\<close>

definition exampleRun ::
  "(string, string) env \<Rightarrow> sqs_Message \<Rightarrow> (string, string) state \<Rightarrow>
     outcome \<times> (string, string) state" where
  "exampleRun env message st =
     processMessage env 1 message ''https://sqs/queue'' ''papers'' ''eu-west-2'' 5000000000 st"

text \<open>The events of lines 82 to 92, and those of a fetch that opened the body.\<close>

abbreviation gateEvents ::
  "('g, 'c) env \<Rightarrow> int \<Rightarrow> Duration \<Rightarrow> ('g, 'c) state \<Rightarrow> string \<Rightarrow> string \<Rightarrow> string \<Rightarrow>
     ('g, 'c) event list" where
  "gateEvents env worker_id minGap st path userID screenID \<equiv>
     [Log (WorkerReceived worker_id path userID screenID), MutexLock,
      ReadLastRequestTime (lastRequestTime st), MutexUnlock] @
     sleepEvents env worker_id minGap st"

abbreviation fetchEvents :: "string \<Rightarrow> string \<Rightarrow> string \<Rightarrow> s3_Body \<Rightarrow> ('g, 'c) event list" where
  "fetchEvents awsRegion s3Bucket path body \<equiv>
     [NewSession awsRegion None, GetObject s3Bucket path (Inr body), ReadAll body,
      BodyClose body] @ closeLog body"


section \<open>The paths through the code\<close>

lemma emit_simps:
  "trace (emit e st) = trace st @ [e]"
  "lastRequestTime (emit e st) = lastRequestTime st"
  "lastRequestTimeMu (emit e st) = lastRequestTimeMu st"
  "clockReads (emit e st) = clockReads st"
  by (simp_all add: emit_def)

lemma newEvents_update [simp]:
  "newEvents st (st\<lparr>trace := trace st @ evs\<rparr>) = evs"
  "newEvents st (st\<lparr>clockReads := n, trace := trace st @ evs\<rparr>) = evs"
  "newEvents st (st\<lparr>lastRequestTime := t, clockReads := n, trace := trace st @ evs\<rparr>) = evs"
  "newEvents st st = []"
  by (simp_all add: newEvents_def)

lemma download_GetObject_fails:
  "s3_GetObject env s3Svc bucket path = Inl err \<Longrightarrow>
   downloadFileFromS3 env s3Svc bucket path st =
     ((None, Some err), st\<lparr>trace := trace st @ [GetObject bucket path (Inl err)]\<rparr>)"
  by (simp add: downloadFileFromS3_def emit_def)

lemma download_opened:
  "s3_GetObject env s3Svc bucket path = Inr body \<Longrightarrow>
   downloadFileFromS3 env s3Svc bucket path st =
     ((case readErr body of
         Some err \<Rightarrow> (None, Some err)
       | None \<Rightarrow> (Some (content body), None)),
      st\<lparr>trace := trace st @ [GetObject bucket path (Inr body), ReadAll body, BodyClose body] @
         closeLog body\<rparr>)"
  by (simp add: downloadFileFromS3_def emit_def Let_def split: option.splits)

lemma gate_free:
  "\<not> lastRequestTimeMu st \<Longrightarrow>
   acquireRateGate env worker_id minGap st =
     (Returned,
      st\<lparr>clockReads := Suc (clockReads st),
         trace := trace st @ [MutexLock, ReadLastRequestTime (lastRequestTime st), MutexUnlock] @
           sleepEvents env worker_id minGap st\<rparr>)"
  by (cases st)
    (simp add: acquireRateGate_def Mutex_Lock_def Mutex_Unlock_def emit_def time_Now_def Let_def)

lemma gate_held:
  "lastRequestTimeMu st \<Longrightarrow> acquireRateGate env worker_id minGap st = (Blocked, st)"
  by (simp add: acquireRateGate_def Mutex_Lock_def)

lemma stamp_free:
  "\<not> lastRequestTimeMu st \<Longrightarrow>
   stampLastRequestTime env st =
     (Returned,
      st\<lparr>lastRequestTime := clock env (clockReads st),
         clockReads := Suc (clockReads st),
         trace := trace st @
           [MutexLock, WriteLastRequestTime (clock env (clockReads st)), MutexUnlock]\<rparr>)"
  by (cases st)
    (simp add: stampLastRequestTime_def Mutex_Lock_def Mutex_Unlock_def emit_def time_Now_def
      Let_def)

lemma pipeline_session_fails:
  "session_NewSession env awsRegion = Some err \<Longrightarrow>
   runPipeline env message sqsURL s3Bucket awsRegion path st =
     (Panicked (SessionMust err), st\<lparr>trace := trace st @ [NewSession awsRegion (Some err)]\<rparr>)"
  by (simp add: runPipeline_def createAWSSession_def emit_def)

lemma pipeline_GetObject_fails:
  "session_NewSession env awsRegion = None \<Longrightarrow>
   s3_GetObject env awsRegion s3Bucket path = Inl err \<Longrightarrow>
   runPipeline env message sqsURL s3Bucket awsRegion path st =
     (Returned,
      st\<lparr>trace := trace st @
         [NewSession awsRegion None, GetObject s3Bucket path (Inl err),
          Log (ErrorDownloading err), Log (BucketKey s3Bucket path)]\<rparr>)"
  by (simp add: runPipeline_def createAWSSession_def download_GetObject_fails emit_def)

lemma pipeline_read_fails:
  "session_NewSession env awsRegion = None \<Longrightarrow>
   s3_GetObject env awsRegion s3Bucket path = Inr body \<Longrightarrow>
   readErr body = Some err \<Longrightarrow>
   runPipeline env message sqsURL s3Bucket awsRegion path st =
     (Returned,
      st\<lparr>trace := trace st @ fetchEvents awsRegion s3Bucket path body @
         [Log (ErrorDownloading err), Log (BucketKey s3Bucket path)]\<rparr>)"
  by (simp add: runPipeline_def createAWSSession_def download_opened emit_def)

lemma pipeline_extract_fails:
  "session_NewSession env awsRegion = None \<Longrightarrow>
   s3_GetObject env awsRegion s3Bucket path = Inr body \<Longrightarrow>
   readErr body = None \<Longrightarrow>
   parsing_SendPDF2Grobid env (content body) = Inl err \<Longrightarrow>
   runPipeline env message sqsURL s3Bucket awsRegion path st =
     (Returned,
      st\<lparr>trace := trace st @ fetchEvents awsRegion s3Bucket path body @
         [SendPDF2Grobid (content body) (Inl err), Log (ErrorSendingGrobid err)]\<rparr>)"
  by (simp add: runPipeline_def createAWSSession_def download_opened emit_def)

lemma pipeline_tidy_fails:
  "session_NewSession env awsRegion = None \<Longrightarrow>
   s3_GetObject env awsRegion s3Bucket path = Inr body \<Longrightarrow>
   readErr body = None \<Longrightarrow>
   parsing_SendPDF2Grobid env (content body) = Inr crude \<Longrightarrow>
   parsing_TidyUpGrobidResponse env crude = Inl err \<Longrightarrow>
   runPipeline env message sqsURL s3Bucket awsRegion path st =
     (Returned,
      st\<lparr>trace := trace st @ fetchEvents awsRegion s3Bucket path body @
         [SendPDF2Grobid (content body) (Inr crude), TidyUpGrobidResponse crude (Inl err),
          Log (ErrorTidyingGrobid err)]\<rparr>)"
  by (simp add: runPipeline_def createAWSSession_def download_opened emit_def)

lemma pipeline_enrich_fails:
  "session_NewSession env awsRegion = None \<Longrightarrow>
   s3_GetObject env awsRegion s3Bucket path = Inr body \<Longrightarrow>
   readErr body = None \<Longrightarrow>
   parsing_SendPDF2Grobid env (content body) = Inr crude \<Longrightarrow>
   parsing_TidyUpGrobidResponse env crude = Inr tidy \<Longrightarrow>
   parsing_CrossReferenceData env (Doi tidy) = Inl err \<Longrightarrow>
   runPipeline env message sqsURL s3Bucket awsRegion path st =
     (Returned,
      st\<lparr>trace := trace st @ fetchEvents awsRegion s3Bucket path body @
         [SendPDF2Grobid (content body) (Inr crude), TidyUpGrobidResponse crude (Inr tidy),
          CrossReferenceData (Doi tidy) (Inl err), Log (ErrorCrossReferencing err)]\<rparr>)"
  by (simp add: runPipeline_def createAWSSession_def download_opened emit_def)

lemma pipeline_all_ok:
  "session_NewSession env awsRegion = None \<Longrightarrow>
   s3_GetObject env awsRegion s3Bucket path = Inr body \<Longrightarrow>
   readErr body = None \<Longrightarrow>
   parsing_SendPDF2Grobid env (content body) = Inr crude \<Longrightarrow>
   parsing_TidyUpGrobidResponse env crude = Inr tidy \<Longrightarrow>
   parsing_CrossReferenceData env (Doi tidy) = Inr xref \<Longrightarrow>
   sqs_ChangeMessageVisibility env sqsURL (ReceiptHandle message) 30 = ext \<Longrightarrow>
   \<not> lastRequestTimeMu st \<Longrightarrow>
   runPipeline env message sqsURL s3Bucket awsRegion path st =
     (Returned,
      st\<lparr>lastRequestTime := clock env (clockReads st),
         clockReads := Suc (clockReads st),
         trace := trace st @ fetchEvents awsRegion s3Bucket path body @
           [SendPDF2Grobid (content body) (Inr crude), TidyUpGrobidResponse crude (Inr tidy),
            CrossReferenceData (Doi tidy) (Inr xref), TidyCrossRefData xref,
            MutexLock, WriteLastRequestTime (clock env (clockReads st)), MutexUnlock,
            ChangeMessageVisibility sqsURL (ReceiptHandle message) 30 ext] @
           (case ext of Some err \<Rightarrow> [Log (ErrorPuttingBack err)] | None \<Rightarrow> [])\<rparr>)"
  by (simp add: runPipeline_def createAWSSession_def download_opened stamp_free
      extendVisibility_def emit_def split: option.splits)

lemma processMessage_nil_body:
  "Body message = None \<Longrightarrow>
   processMessage env worker_id message sqsURL s3Bucket awsRegion minGap st =
     (Panicked NilPointerDereference, st)"
  by (simp add: processMessage_def)

lemma processMessage_bad_json:
  "Body message = Some body \<Longrightarrow> json_Unmarshal env body = Inl err \<Longrightarrow>
   processMessage env worker_id message sqsURL s3Bucket awsRegion minGap st =
     (Returned, st\<lparr>trace := trace st @ [Log (ErrorDecodingJSON err)]\<rparr>)"
  by (simp add: processMessage_def emit_def)

lemma processMessage_missing_field:
  "Body message = Some body \<Longrightarrow> json_Unmarshal env body = Inr msgData \<Longrightarrow>
   assertString msgData ''s3Location'' = None \<or> assertString msgData ''user_id'' = None \<or>
     assertString msgData ''screen_id'' = None \<Longrightarrow>
   \<exists>key. processMessage env worker_id message sqsURL s3Bucket awsRegion minGap st =
     (Panicked (InterfaceConversion key), st)"
  by (auto simp add: processMessage_def split: option.splits)

lemma processMessage_held:
  "Body message = Some body \<Longrightarrow> json_Unmarshal env body = Inr msgData \<Longrightarrow>
   assertString msgData ''s3Location'' = Some path \<Longrightarrow>
   assertString msgData ''user_id'' = Some userID \<Longrightarrow>
   assertString msgData ''screen_id'' = Some screenID \<Longrightarrow>
   lastRequestTimeMu st \<Longrightarrow>
   processMessage env worker_id message sqsURL s3Bucket awsRegion minGap st =
     (Blocked, st\<lparr>trace := trace st @ [Log (WorkerReceived worker_id path userID screenID)]\<rparr>)"
  by (simp add: processMessage_def gate_held emit_simps emit_def)

lemma processMessage_decoded:
  "Body message = Some body \<Longrightarrow> json_Unmarshal env body = Inr msgData \<Longrightarrow>
   assertString msgData ''s3Location'' = Some path \<Longrightarrow>
   assertString msgData ''user_id'' = Some userID \<Longrightarrow>
   assertString msgData ''screen_id'' = Some screenID \<Longrightarrow>
   \<not> lastRequestTimeMu st \<Longrightarrow>
   processMessage env worker_id message sqsURL s3Bucket awsRegion minGap st =
     runPipeline env message sqsURL s3Bucket awsRegion path
       (st\<lparr>clockReads := Suc (clockReads st),
           trace := trace st @ gateEvents env worker_id minGap st path userID screenID\<rparr>)"
  by (simp add: processMessage_def gate_free emit_simps) (simp add: emit_def)

lemma runPipeline_cases
  [consumes 1, case_names session_fails GetObject_fails read_fails extract_fails tidy_fails
     enrich_fails all_ok]:
  assumes free: "\<not> lastRequestTimeMu st"
  obtains
    (session_fails) err where
      "session_NewSession env awsRegion = Some err"
      "runPipeline env message sqsURL s3Bucket awsRegion path st =
         (Panicked (SessionMust err),
          st\<lparr>trace := trace st @ [NewSession awsRegion (Some err)]\<rparr>)"
  | (GetObject_fails) err where
      "session_NewSession env awsRegion = None"
      "s3_GetObject env awsRegion s3Bucket path = Inl err"
      "runPipeline env message sqsURL s3Bucket awsRegion path st =
         (Returned,
          st\<lparr>trace := trace st @
             [NewSession awsRegion None, GetObject s3Bucket path (Inl err),
              Log (ErrorDownloading err), Log (BucketKey s3Bucket path)]\<rparr>)"
  | (read_fails) body err where
      "session_NewSession env awsRegion = None"
      "s3_GetObject env awsRegion s3Bucket path = Inr body"
      "readErr body = Some err"
      "runPipeline env message sqsURL s3Bucket awsRegion path st =
         (Returned,
          st\<lparr>trace := trace st @ fetchEvents awsRegion s3Bucket path body @
             [Log (ErrorDownloading err), Log (BucketKey s3Bucket path)]\<rparr>)"
  | (extract_fails) body err where
      "session_NewSession env awsRegion = None"
      "s3_GetObject env awsRegion s3Bucket path = Inr body"
      "readErr body = None"
      "parsing_SendPDF2Grobid env (content body) = Inl err"
      "runPipeline env message sqsURL s3Bucket awsRegion path st =
         (Returned,
          st\<lparr>trace := trace st @ fetchEvents awsRegion s3Bucket path body @
             [SendPDF2Grobid (content body) (Inl err), Log (ErrorSendingGrobid err)]\<rparr>)"
  | (tidy_fails) body crude err where
      "session_NewSession env awsRegion = None"
      "s3_GetObject env awsRegion s3Bucket path = Inr body"
      "readErr body = None"
      "parsing_SendPDF2Grobid env (content body) = Inr crude"
      "parsing_TidyUpGrobidResponse env crude = Inl err"
      "runPipeline env message sqsURL s3Bucket awsRegion path st =
         (Returned,
          st\<lparr>trace := trace st @ fetchEvents awsRegion s3Bucket path body @
             [SendPDF2Grobid (content body) (Inr crude),
              TidyUpGrobidResponse crude (Inl err), Log (ErrorTidyingGrobid err)]\<rparr>)"
  | (enrich_fails) body crude tidy err where
      "session_NewSession env awsRegion = None"
      "s3_GetObject env awsRegion s3Bucket path = Inr body"
      "readErr body = None"
      "parsing_SendPDF2Grobid env (content body) = Inr crude"
      "parsing_TidyUpGrobidResponse env crude = Inr tidy"
      "parsing_CrossReferenceData env (Doi tidy) = Inl err"
      "runPipeline env message sqsURL s3Bucket awsRegion path st =
         (Returned,
          st\<lparr>trace := trace st @ fetchEvents awsRegion s3Bucket path body @
             [SendPDF2Grobid (content body) (Inr crude),
              TidyUpGrobidResponse crude (Inr tidy),
              CrossReferenceData (Doi tidy) (Inl err), Log (ErrorCrossReferencing err)]\<rparr>)"
  | (all_ok) body crude tidy xref ext where
      "session_NewSession env awsRegion = None"
      "s3_GetObject env awsRegion s3Bucket path = Inr body"
      "readErr body = None"
      "parsing_SendPDF2Grobid env (content body) = Inr crude"
      "parsing_TidyUpGrobidResponse env crude = Inr tidy"
      "parsing_CrossReferenceData env (Doi tidy) = Inr xref"
      "sqs_ChangeMessageVisibility env sqsURL (ReceiptHandle message) 30 = ext"
      "runPipeline env message sqsURL s3Bucket awsRegion path st =
         (Returned,
          st\<lparr>lastRequestTime := clock env (clockReads st),
             clockReads := Suc (clockReads st),
             trace := trace st @ fetchEvents awsRegion s3Bucket path body @
               [SendPDF2Grobid (content body) (Inr crude),
                TidyUpGrobidResponse crude (Inr tidy),
                CrossReferenceData (Doi tidy) (Inr xref), TidyCrossRefData xref,
                MutexLock, WriteLastRequestTime (clock env (clockReads st)), MutexUnlock,
                ChangeMessageVisibility sqsURL (ReceiptHandle message) 30 ext] @
               (case ext of Some err \<Rightarrow> [Log (ErrorPuttingBack err)] | None \<Rightarrow> [])\<rparr>)"
proof (cases "session_NewSession env awsRegion")
  case (Some err)
  then show ?thesis
    using session_fails pipeline_session_fails by blast
next
  case None
  note sess = this
  show ?thesis
  proof (cases "s3_GetObject env awsRegion s3Bucket path")
    case (Inl err)
    then show ?thesis
      using GetObject_fails [OF sess] pipeline_GetObject_fails [OF sess] by blast
  next
    case (Inr body)
    note got = this
    show ?thesis
    proof (cases "readErr body")
      case (Some err)
      then show ?thesis
        using read_fails [OF sess got] pipeline_read_fails [OF sess got] by blast
    next
      case None
      note rd = this
      show ?thesis
      proof (cases "parsing_SendPDF2Grobid env (content body)")
        case (Inl err)
        then show ?thesis
          using extract_fails [OF sess got rd] pipeline_extract_fails [OF sess got rd]
          by blast
      next
        case (Inr crude)
        note ex = this
        show ?thesis
        proof (cases "parsing_TidyUpGrobidResponse env crude")
          case (Inl err)
          then show ?thesis
            using tidy_fails [OF sess got rd ex] pipeline_tidy_fails [OF sess got rd ex]
            by blast
        next
          case (Inr tidy)
          note td = this
          show ?thesis
          proof (cases "parsing_CrossReferenceData env (Doi tidy)")
            case (Inl err)
            then show ?thesis
              using enrich_fails [OF sess got rd ex td]
                pipeline_enrich_fails [OF sess got rd ex td]
              by blast
          next
            case (Inr xref)
            then show ?thesis
              using all_ok [OF sess got rd ex td _ refl]
                pipeline_all_ok [OF sess got rd ex td _ refl free]
              by blast
          qed
        qed
      qed
    qed
  qed
qed

lemma processMessage_cases [case_names nil_body bad_json missing_field held gated]:
  obtains
    (nil_body)
      "Body message = None"
      "processMessage env worker_id message sqsURL s3Bucket awsRegion minGap st =
         (Panicked NilPointerDereference, st)"
  | (bad_json) body err where
      "Body message = Some body"
      "json_Unmarshal env body = Inl err"
      "processMessage env worker_id message sqsURL s3Bucket awsRegion minGap st =
         (Returned, st\<lparr>trace := trace st @ [Log (ErrorDecodingJSON err)]\<rparr>)"
  | (missing_field) body msgData key where
      "Body message = Some body"
      "json_Unmarshal env body = Inr msgData"
      "assertString msgData ''s3Location'' = None \<or> assertString msgData ''user_id'' = None \<or>
         assertString msgData ''screen_id'' = None"
      "processMessage env worker_id message sqsURL s3Bucket awsRegion minGap st =
         (Panicked (InterfaceConversion key), st)"
  | (held) path userID screenID where
      "lastRequestTimeMu st"
      "processMessage env worker_id message sqsURL s3Bucket awsRegion minGap st =
         (Blocked,
          st\<lparr>trace := trace st @ [Log (WorkerReceived worker_id path userID screenID)]\<rparr>)"
  | (gated) body msgData path userID screenID where
      "Body message = Some body"
      "json_Unmarshal env body = Inr msgData"
      "assertString msgData ''s3Location'' = Some path"
      "assertString msgData ''user_id'' = Some userID"
      "assertString msgData ''screen_id'' = Some screenID"
      "\<not> lastRequestTimeMu st"
      "processMessage env worker_id message sqsURL s3Bucket awsRegion minGap st =
         runPipeline env message sqsURL s3Bucket awsRegion path
           (st\<lparr>clockReads := Suc (clockReads st),
               trace := trace st @ gateEvents env worker_id minGap st path userID screenID\<rparr>)"
proof (cases "Body message")
  case None
  then show ?thesis
    using nil_body processMessage_nil_body by blast
next
  case (Some body)
  note bd = this
  show ?thesis
  proof (cases "json_Unmarshal env body")
    case (Inl err)
    then show ?thesis
      using bad_json [OF bd] processMessage_bad_json [OF bd] by blast
  next
    case (Inr msgData)
    note js = this
    show ?thesis
    proof (cases "assertString msgData ''s3Location'' = None \<or>
        assertString msgData ''user_id'' = None \<or> assertString msgData ''screen_id'' = None")
      case True
      then show ?thesis
        using missing_field [OF bd js] processMessage_missing_field [OF bd js] by blast
    next
      case False
      then obtain path userID screenID where
        asserted: "assertString msgData ''s3Location'' = Some path"
          "assertString msgData ''user_id'' = Some userID"
          "assertString msgData ''screen_id'' = Some screenID"
        by auto
      show ?thesis
      proof (cases "lastRequestTimeMu st")
        case True
        then show ?thesis
          using held processMessage_held [OF bd js asserted] by blast
      next
        case False
        then show ?thesis
          using gated [OF bd js asserted] processMessage_decoded [OF bd js asserted] by blast
      qed
    qed
  qed
qed

section \<open>The example runs\<close>

lemmas model_defs =
  processMessage_def assertString_def emit_def acquireRateGate_def Mutex_Lock_def
  Mutex_Unlock_def time_Now_def Time_Sub_def maxDuration_def minDuration_def runPipeline_def
  createAWSSession_def downloadFileFromS3_def stampLastRequestTime_def extendVisibility_def

lemmas example_defs =
  exampleRun_def exampleEnv_def envTidyFails_def envNotFound_def envExtensionFails_def
  messageA_def messageB_def messageNoScreenId_def bodyA_def bodyB_def bodyNoScreenId_def
  objectA_def initial_def
  stampedRecently_def

lemma run_scenarioA:
  "exampleRun exampleEnv messageA initial =
     (Returned,
      \<lparr>lastRequestTime = 63900000001000000000, lastRequestTimeMu = False, clockReads = 2,
       trace =
         [Log (WorkerReceived 1 ''docs/1.pdf'' ''u1'' ''s1''), MutexLock,
          ReadLastRequestTime 0, MutexUnlock, NewSession ''eu-west-2'' None,
          GetObject ''papers'' ''docs/1.pdf'' (Inr objectA), ReadAll objectA,
          BodyClose objectA, SendPDF2Grobid [37, 80, 68, 70] (Inr ''<TEI/>''),
          TidyUpGrobidResponse ''<TEI/>'' (Inr \<lparr>Doi = ''10.1/x''\<rparr>),
          CrossReferenceData ''10.1/x'' (Inr ''{}''), TidyCrossRefData ''{}'',
          MutexLock, WriteLastRequestTime 63900000001000000000, MutexUnlock,
          ChangeMessageVisibility ''https://sqs/queue'' (Some ''rh-1'') 30 None]\<rparr>)"
  by (simp add: model_defs example_defs)

lemma run_stampedRecently:
  "exampleRun exampleEnv messageA stampedRecently =
     (Returned,
      \<lparr>lastRequestTime = 63900000001000000000, lastRequestTimeMu = False, clockReads = 2,
       trace =
         [Log (WorkerReceived 1 ''docs/1.pdf'' ''u1'' ''s1''), MutexLock,
          ReadLastRequestTime 63899999999000000000, MutexUnlock,
          Log (WorkerSleeping 1 4000000000), Sleep 4000000000,
          NewSession ''eu-west-2'' None,
          GetObject ''papers'' ''docs/1.pdf'' (Inr objectA), ReadAll objectA,
          BodyClose objectA, SendPDF2Grobid [37, 80, 68, 70] (Inr ''<TEI/>''),
          TidyUpGrobidResponse ''<TEI/>'' (Inr \<lparr>Doi = ''10.1/x''\<rparr>),
          CrossReferenceData ''10.1/x'' (Inr ''{}''), TidyCrossRefData ''{}'',
          MutexLock, WriteLastRequestTime 63900000001000000000, MutexUnlock,
          ChangeMessageVisibility ''https://sqs/queue'' (Some ''rh-1'') 30 None]\<rparr>)"
  by (simp add: model_defs example_defs)

lemma run_tidyFails:
  "exampleRun envTidyFails messageA initial =
     (Returned,
      \<lparr>lastRequestTime = 0, lastRequestTimeMu = False, clockReads = 1,
       trace =
         [Log (WorkerReceived 1 ''docs/1.pdf'' ''u1'' ''s1''), MutexLock,
          ReadLastRequestTime 0, MutexUnlock, NewSession ''eu-west-2'' None,
          GetObject ''papers'' ''docs/1.pdf'' (Inr objectA), ReadAll objectA,
          BodyClose objectA, SendPDF2Grobid [37, 80, 68, 70] (Inr ''<TEI/>''),
          TidyUpGrobidResponse ''<TEI/>'' (Inl (Error ''no TEI header'')),
          Log (ErrorTidyingGrobid (Error ''no TEI header''))]\<rparr>)"
  by (simp add: model_defs example_defs)

lemma run_notFound:
  "exampleRun envNotFound messageA initial =
     (Returned,
      \<lparr>lastRequestTime = 0, lastRequestTimeMu = False, clockReads = 1,
       trace =
         [Log (WorkerReceived 1 ''docs/1.pdf'' ''u1'' ''s1''), MutexLock,
          ReadLastRequestTime 0, MutexUnlock, NewSession ''eu-west-2'' None,
          GetObject ''papers'' ''docs/1.pdf'' (Inl (Error ''NoSuchKey'')),
          Log (ErrorDownloading (Error ''NoSuchKey'')),
          Log (BucketKey ''papers'' ''docs/1.pdf'')]\<rparr>)"
  by (simp add: model_defs example_defs)

lemma run_extensionFails:
  "exampleRun envExtensionFails messageA initial =
     (Returned,
      \<lparr>lastRequestTime = 63900000001000000000, lastRequestTimeMu = False, clockReads = 2,
       trace =
         [Log (WorkerReceived 1 ''docs/1.pdf'' ''u1'' ''s1''), MutexLock,
          ReadLastRequestTime 0, MutexUnlock, NewSession ''eu-west-2'' None,
          GetObject ''papers'' ''docs/1.pdf'' (Inr objectA), ReadAll objectA,
          BodyClose objectA, SendPDF2Grobid [37, 80, 68, 70] (Inr ''<TEI/>''),
          TidyUpGrobidResponse ''<TEI/>'' (Inr \<lparr>Doi = ''10.1/x''\<rparr>),
          CrossReferenceData ''10.1/x'' (Inr ''{}''), TidyCrossRefData ''{}'',
          MutexLock, WriteLastRequestTime 63900000001000000000, MutexUnlock,
          ChangeMessageVisibility ''https://sqs/queue'' (Some ''rh-1'') 30
            (Some (Error ''ReceiptHandleIsInvalid'')),
          Log (ErrorPuttingBack (Error ''ReceiptHandleIsInvalid''))]\<rparr>)"
  by (simp add: model_defs example_defs)

lemma run_noScreenId:
  "exampleRun exampleEnv messageNoScreenId initial =
     (Panicked (InterfaceConversion ''screen_id''), initial)"
  by (simp add: model_defs example_defs)

lemma run_messageB:
  "exampleRun exampleEnv messageB initial =
     (Returned,
      \<lparr>lastRequestTime = 63900000001000000000, lastRequestTimeMu = False, clockReads = 2,
       trace =
         [Log (WorkerReceived 1 ''docs/1.pdf'' ''u2'' ''s2''), MutexLock,
          ReadLastRequestTime 0, MutexUnlock, NewSession ''eu-west-2'' None,
          GetObject ''papers'' ''docs/1.pdf'' (Inr objectA), ReadAll objectA,
          BodyClose objectA, SendPDF2Grobid [37, 80, 68, 70] (Inr ''<TEI/>''),
          TidyUpGrobidResponse ''<TEI/>'' (Inr \<lparr>Doi = ''10.1/x''\<rparr>),
          CrossReferenceData ''10.1/x'' (Inr ''{}''), TidyCrossRefData ''{}'',
          MutexLock, WriteLastRequestTime 63900000001000000000, MutexUnlock,
          ChangeMessageVisibility ''https://sqs/queue'' (Some ''rh-1'') 30 None]\<rparr>)"
  by (simp add: model_defs example_defs)

lemma example_decoding:
  "Body messageA = Some bodyA"
  "Body messageB = Some bodyB"
  "ReceiptHandle messageB = Some ''rh-1''"
  "json_Unmarshal exampleEnv bodyA =
     Inr [''s3Location'' \<mapsto> IString ''docs/1.pdf'', ''user_id'' \<mapsto> IString ''u1'',
          ''screen_id'' \<mapsto> IString ''s1'']"
  "json_Unmarshal exampleEnv bodyB =
     Inr [''s3Location'' \<mapsto> IString ''docs/1.pdf'', ''user_id'' \<mapsto> IString ''u2'',
          ''screen_id'' \<mapsto> IString ''s2'']"
  by (simp_all add: example_defs)

lemma example_projections:
  "sqs_ChangeMessageVisibility exampleEnv url handle timeout = None"
  "sqs_ChangeMessageVisibility envExtensionFails url handle timeout =
     Some (Error ''ReceiptHandleIsInvalid'')"
  "ReceiptHandle messageA = Some ''rh-1''"
  "clock exampleEnv n = 63900000000000000000 + 1000000000 * int n"
  "clock envSlowClock n = 63900000000000000000 + 10000000000 * int n"
  "lastRequestTime initial = 0"
  "lastRequestTimeMu initial = False"
  "clockReads initial = 0"
  "trace initial = []"
  "lastRequestTime stampedRecently = 63899999999000000000"
  "lastRequestTimeMu stampedRecently = False"
  "clockReads stampedRecently = 0"
  "trace stampedRecently = []"
  by (simp_all add: example_defs envSlowClock_def)


section \<open>Arithmetic of durations\<close>

lemma sint_Duration_of_int:
  "- (2 ^ 63) \<le> d \<Longrightarrow> d \<le> 2 ^ 63 - 1 \<Longrightarrow> sint (word_of_int d :: Duration) = d"
  by (simp add: sint_sbintrunc' signed_take_bit_int_eq_self)

lemma sint_Time_Sub:
  "- (2 ^ 63) \<le> t - u \<Longrightarrow> t - u \<le> 2 ^ 63 - 1 \<Longrightarrow> sint (Time_Sub t u) = t - u"
  using sint_Duration_of_int [of "t - u"] by (simp add: Time_Sub_def Let_def)

lemma Time_Sub_saturates:
  "2 ^ 63 - 1 \<le> t - u \<Longrightarrow> sint (Time_Sub t u) = 2 ^ 63 - 1"
  by (simp add: Time_Sub_def Let_def maxDuration_def sint_Duration_of_int)

lemma sint_Duration_le: "sint (d :: Duration) \<le> 2 ^ 63 - 1"
  using sint_lt [of d] by simp

lemma sint_Duration_sub:
  "0 \<le> sint (e :: Duration) \<Longrightarrow> sint e < sint (g :: Duration) \<Longrightarrow> sint (g - e) = sint g - sint e"
  using sint_lt [of g] by (simp add: sint_word_ariths signed_take_bit_int_eq_self)

section \<open>The invariant of the mutex\<close>

lemma gateStep_invariant:
  assumes "gateStep env w minGap pc st = Some (pc', st')"
    and "lastRequestTimeMu st = (inCriticalSection pc \<or> inCriticalSection other)"
    and "\<not> (inCriticalSection pc \<and> inCriticalSection other)"
  shows "lastRequestTimeMu st' = (inCriticalSection pc' \<or> inCriticalSection other) \<and>
    \<not> (inCriticalSection pc' \<and> inCriticalSection other)"
  using assms
  by (cases pc)
    (auto simp add: Mutex_Lock_def Mutex_Unlock_def emit_def time_Now_def Let_def
      split: if_splits)

lemma runWorkers_invariant:
  "runWorkers env minGap schedule c = Some c' \<Longrightarrow> mutexInvariant c \<Longrightarrow> mutexInvariant c'"
proof (induction schedule arbitrary: c)
  case Nil
  then show ?case by simp
next
  case (Cons w schedule)
  obtain pcA pcB st where c: "c = (pcA, pcB, st)"
    by (cases c)
  show ?case
  proof (cases w)
    case WorkerA
    with Cons.prems c obtain pcA' st' where
      step: "gateStep env 1 minGap pcA st = Some (pcA', st')" and
      rest: "runWorkers env minGap schedule (pcA', pcB, st') = Some c'"
      by (auto split: option.splits)
    from gateStep_invariant [OF step, of pcB] Cons.prems(2) c
    have "mutexInvariant (pcA', pcB, st')"
      by (simp add: mutexInvariant_def)
    with Cons.IH [OF rest] show ?thesis .
  next
    case WorkerB
    with Cons.prems c obtain pcB' st' where
      step: "gateStep env 2 minGap pcB st = Some (pcB', st')" and
      rest: "runWorkers env minGap schedule (pcA, pcB', st') = Some c'"
      by (auto split: option.splits)
    from gateStep_invariant [OF step, of pcA] Cons.prems(2) c
    have "mutexInvariant (pcA, pcB', st')"
      by (auto simp add: mutexInvariant_def)
    with Cons.IH [OF rest] show ?thesis .
  qed
qed

text \<open>
  Four steps of a worker that finds the mutex free are its whole acquire, as
  \<open>acquireRateGate\<close> computes it, and they end inside the sleep or past the gate.
\<close>

lemma four_steps_acquire:
  assumes "\<not> lastRequestTimeMu st"
  shows "runWorkers env minGap [WorkerB, WorkerB, WorkerB, WorkerB] (pcA, AtLock, st) =
      Some (pcA,
        (if sint (elapsed env st) < sint minGap then AtSleep (minGap - elapsed env st)
         else PastGate),
        snd (acquireRateGate env 2 minGap st))"
    and "runWorkers env minGap [WorkerA, WorkerA, WorkerA, WorkerA] (AtLock, pcB, st) =
      Some ((if sint (elapsed env st) < sint minGap then AtSleep (minGap - elapsed env st)
         else PastGate),
        pcB, snd (acquireRateGate env 1 minGap st))"
  using assms
  by (simp_all add: acquireRateGate_def Mutex_Lock_def Mutex_Unlock_def emit_def time_Now_def
      Let_def)

section \<open>A message with a missing field\<close>

text \<open>
  C1. The body \<^verbatim>\<open>{"s3Location":"docs/1.pdf","user_id":"u1"}\<close> decodes as JSON and has no
  \<^verbatim>\<open>screen_id\<close>. \<^verbatim>\<open>processMessage\<close> makes no call and writes no log line on it, but it
  does not return: the type assertion on \<^verbatim>\<open>screen_id\<close> panics. In a worker that receives
  this message and then the well-formed message of Scenario A, the panic leaves the loop:
  the second message is never processed, and the trace holds the start-up line only.
\<close>

theorem missing_screen_id_panics:
  "(case json_Unmarshal exampleEnv bodyNoScreenId of
      Inl err \<Rightarrow> False
    | Inr msgData \<Rightarrow>
        msgData ''s3Location'' = Some (IString ''docs/1.pdf'') \<and>
        msgData ''user_id'' = Some (IString ''u1'') \<and> msgData ''screen_id'' = None) \<and>
   exampleRun exampleEnv messageNoScreenId initial =
     (Panicked (InterfaceConversion ''screen_id''), initial) \<and>
   Worker exampleEnv 1 [messageNoScreenId, messageA] ''https://sqs/queue'' ''papers'' initial =
     (Panicked (InterfaceConversion ''screen_id''),
      initial\<lparr>trace := [Log (StartingWorker 1)]\<rparr>)"
  by (simp add: Worker_def model_defs example_defs)

section \<open>Where the rate gate sits\<close>

text \<open>
  C2, as stated: the acquire step of the rate gate comes after the object has been
  fetched and immediately before the extraction call. In the code it comes before the
  session is created and the object is fetched. In the run of Scenario A from a state
  stamped one second earlier, the object is fetched, the gate's read and its sleep of four
  seconds both precede the \<^verbatim>\<open>GetObject\<close> call, no event of the gate follows it, and
  the event right before the extraction call is the close of the body.
\<close>

theorem gate_after_fetch_counterexample:
  "(case exampleRun exampleEnv messageA stampedRecently of
      (out, st') \<Rightarrow>
        filter fetchSucceeded (trace st') = [ReadAll objectA] \<and>
        filter isGateEvent (takeWhile (\<lambda>e. \<not> isGetObject e) (trace st')) =
          [ReadLastRequestTime 63899999999000000000, Sleep 4000000000] \<and>
        filter isGateEvent (dropWhile (\<lambda>e. \<not> isGetObject e) (trace st')) = [] \<and>
        last (takeWhile (\<lambda>e. \<not> isSendPDF2Grobid e) (trace st')) = BodyClose objectA)"
  by (simp add: run_stampedRecently objectA_def)

text \<open>
  C2, amended. In every call of \<^verbatim>\<open>processMessage\<close>, no stage is called before the
  session is created, and no event of the rate gate occurs from the creation of the
  session on. When the session is created, what precedes it is the line that reports the
  decoded message followed by the acquire step: the lock, the read of the shared
  timestamp, the unlock and, when the elapsed time is below the minimum gap, the log line
  and the sleep. So the acquire step takes place once, right before the session is created
  and the object is fetched, and it gates the fetch and every later call of the message.
\<close>

theorem gate_precedes_session_and_fetch:
  "(case processMessage env worker_id message sqsURL s3Bucket awsRegion minGap st of
      (out, st') \<Rightarrow>
        (let evs = newEvents st st' in
         filter isStageCall (takeWhile (\<lambda>e. \<not> isNewSession e) evs) = [] \<and>
         filter isGateEvent (dropWhile (\<lambda>e. \<not> isNewSession e) evs) = [] \<and>
         (filter isNewSession evs \<noteq> [] \<longrightarrow>
            tl (takeWhile (\<lambda>e. \<not> isNewSession e) evs) =
              [MutexLock, ReadLastRequestTime (lastRequestTime st), MutexUnlock] @
              sleepEvents env worker_id minGap st \<and>
            take 2 (dropWhile (\<lambda>e. \<not> isNewSession e) evs) =
              NewSession awsRegion (session_NewSession env awsRegion) #
              filter isGetObject evs)))"
proof (cases rule: processMessage_cases
    [where env = env and worker_id = worker_id and message = message and sqsURL = sqsURL
      and s3Bucket = s3Bucket and awsRegion = awsRegion and minGap = minGap and st = st])
  case nil_body
  then show ?thesis by simp
next
  case (bad_json body err)
  then show ?thesis by simp
next
  case (missing_field body msgData key)
  then show ?thesis by simp
next
  case (held path userID screenID)
  then show ?thesis by simp
next
  case (gated body msgData path userID screenID)
  let ?g = "st\<lparr>clockReads := Suc (clockReads st),
    trace := trace st @ gateEvents env worker_id minGap st path userID screenID\<rparr>"
  have "\<not> lastRequestTimeMu ?g"
    using gated(6) by simp
  then show ?thesis
    by (cases rule: runPipeline_cases
        [where st = ?g and env = env and awsRegion = awsRegion and message = message
          and sqsURL = sqsURL and s3Bucket = s3Bucket and path = path])
      (auto simp add: gated(7) newEvents_def split: option.splits)
qed

theorem gate_precedes_session_and_fetch_witness:
  "(case exampleRun exampleEnv messageA stampedRecently of
      (out, st') \<Rightarrow>
        filter isNewSession (trace st') = [NewSession ''eu-west-2'' None] \<and>
        tl (takeWhile (\<lambda>e. \<not> isNewSession e) (trace st')) =
          [MutexLock, ReadLastRequestTime 63899999999000000000, MutexUnlock,
           Log (WorkerSleeping 1 4000000000), Sleep 4000000000] \<and>
        take 2 (dropWhile (\<lambda>e. \<not> isNewSession e) (trace st')) =
          [NewSession ''eu-west-2'' None, GetObject ''papers'' ''docs/1.pdf'' (Inr objectA)])"
  using
    gate_precedes_session_and_fetch
      [where env = exampleEnv and worker_id = 1 and message = messageA
        and sqsURL = "''https://sqs/queue''" and s3Bucket = "''papers''"
        and awsRegion = "''eu-west-2''" and minGap = 5000000000 and st = stampedRecently]
  by (simp add: run_stampedRecently [unfolded exampleRun_def] run_stampedRecently objectA_def)

section \<open>Where the shared timestamp is stamped\<close>

text \<open>
  C3, as stated: the shared timestamp is stamped right after the extraction call returns,
  whatever the later stages do. The code stamps it after \<^verbatim>\<open>TidyCrossRefData\<close>. With a
  normalization that fails, the extraction has succeeded and the timestamp is never
  written; and in Scenario A the event after the extraction call is the normalization
  call, and three calls lie between the extraction call and the lock of the stamp.
\<close>

theorem stamp_after_extraction_counterexample:
  "(case exampleRun envTidyFails messageA initial of
      (out, st') \<Rightarrow>
        filter extractionSucceeded (trace st') =
          [SendPDF2Grobid [37, 80, 68, 70] (Inr ''<TEI/>'')] \<and>
        filter isStamp (trace st') = [] \<and>
        lastRequestTime st' = lastRequestTime initial) \<and>
   (case exampleRun exampleEnv messageA initial of
      (out, st') \<Rightarrow>
        take 5 (dropWhile (\<lambda>e. \<not> isSendPDF2Grobid e) (trace st')) =
          [SendPDF2Grobid [37, 80, 68, 70] (Inr ''<TEI/>''),
           TidyUpGrobidResponse ''<TEI/>'' (Inr \<lparr>Doi = ''10.1/x''\<rparr>),
           CrossReferenceData ''10.1/x'' (Inr ''{}''),
           TidyCrossRefData ''{}'',
           MutexLock])"
  by (simp add: run_tidyFails run_scenarioA example_projections)

text \<open>
  C3, amended. For every message whose enrichment lookup succeeds, the shared timestamp
  is written exactly once, with the reading of the clock taken at that moment; the write
  happens under the mutex right after \<^verbatim>\<open>TidyCrossRefData\<close> and right before the call of
  \<^verbatim>\<open>ChangeMessageVisibility\<close>, and the written value is the timestamp after the call,
  whether the visibility extension succeeds or fails.
\<close>

theorem stamp_follows_enrichment:
  assumes "processMessage env worker_id message sqsURL s3Bucket awsRegion minGap st = (out, st')"
    and "filter enrichmentSucceeded (newEvents st st') \<noteq> []"
  shows "filter isStamp (newEvents st st') =
       [WriteLastRequestTime (clock env (Suc (clockReads st)))] \<and>
     lastRequestTime st' = clock env (Suc (clockReads st)) \<and>
     tl (dropWhile (\<lambda>e. \<not> isTidyCrossRefData e) (newEvents st st')) =
       [MutexLock, WriteLastRequestTime (clock env (Suc (clockReads st))), MutexUnlock,
        ChangeMessageVisibility sqsURL (ReceiptHandle message) 30
          (sqs_ChangeMessageVisibility env sqsURL (ReceiptHandle message) 30)] @
       (case sqs_ChangeMessageVisibility env sqsURL (ReceiptHandle message) 30 of
          Some err \<Rightarrow> [Log (ErrorPuttingBack err)]
        | None \<Rightarrow> [])"
proof (cases rule: processMessage_cases
    [where env = env and worker_id = worker_id and message = message and sqsURL = sqsURL
      and s3Bucket = s3Bucket and awsRegion = awsRegion and minGap = minGap and st = st])
  case nil_body
  with assms show ?thesis by simp
next
  case (bad_json body err)
  with assms show ?thesis by auto
next
  case (missing_field body msgData key)
  with assms show ?thesis by simp
next
  case (held path userID screenID)
  with assms show ?thesis by auto
next
  case (gated body msgData path userID screenID)
  let ?g = "st\<lparr>clockReads := Suc (clockReads st),
    trace := trace st @ gateEvents env worker_id minGap st path userID screenID\<rparr>"
  have "\<not> lastRequestTimeMu ?g"
    using gated(6) by simp
  then show ?thesis
    using assms
    by (cases rule: runPipeline_cases
        [where st = ?g and env = env and awsRegion = awsRegion and message = message
          and sqsURL = sqsURL and s3Bucket = s3Bucket and path = path])
      (auto simp add: gated(7) newEvents_def split: option.splits if_splits)
qed

theorem stamp_follows_enrichment_witness:
  "filter enrichmentSucceeded
       (newEvents initial (snd (exampleRun envExtensionFails messageA initial))) \<noteq> [] \<and>
   filter isStamp (newEvents initial (snd (exampleRun envExtensionFails messageA initial))) =
     [WriteLastRequestTime 63900000001000000000] \<and>
   lastRequestTime (snd (exampleRun envExtensionFails messageA initial)) =
     63900000001000000000 \<and>
   tl (dropWhile (\<lambda>e. \<not> isTidyCrossRefData e)
        (newEvents initial (snd (exampleRun envExtensionFails messageA initial)))) =
     [MutexLock, WriteLastRequestTime 63900000001000000000, MutexUnlock,
      ChangeMessageVisibility ''https://sqs/queue'' (Some ''rh-1'') 30
        (Some (Error ''ReceiptHandleIsInvalid'')),
      Log (ErrorPuttingBack (Error ''ReceiptHandleIsInvalid''))]"
proof -
  let ?failed = "snd (exampleRun envExtensionFails messageA initial)"
  have run_failed:
    "processMessage envExtensionFails 1 messageA ''https://sqs/queue'' ''papers'' ''eu-west-2''
       5000000000 initial = (Returned, ?failed)"
    by (simp add: run_extensionFails [unfolded exampleRun_def] run_extensionFails)
  have enriched: "filter enrichmentSucceeded (newEvents initial ?failed) \<noteq> []"
    by (simp add: run_extensionFails newEvents_def example_projections)
  from stamp_follows_enrichment [OF run_failed enriched] enriched
  show ?thesis
    by (simp add: run_extensionFails example_projections)
qed

section \<open>The stages of the pipeline\<close>

text \<open>
  C4. For every message, environment and state, with \<open>evs\<close> the events of the call:
  the visibility extension is requested exactly when the fetch, the extraction, the
  normalization and the enrichment lookup have all been called and have all succeeded;
  when one of the four has failed, \<^verbatim>\<open>processMessage\<close> returns, the extension is not
  requested, and no stage is called after the failed call; in particular, a failed
  \<^verbatim>\<open>GetObject\<close> is the only stage call of the message. When the message decodes, the
  mutex is free, the session is created and the four calls all succeed in the
  environment, the stage calls are the six calls of the whole pipeline, in order, ending
  with the visibility extension.
\<close>

theorem stages_stop_at_first_failure:
  "(case processMessage env worker_id message sqsURL s3Bucket awsRegion minGap st of
      (out, st') \<Rightarrow>
        (let evs = newEvents st st' in
         trace st' = trace st @ evs \<and>
         ((filter isChangeMessageVisibility evs \<noteq> []) =
            (filter fetchSucceeded evs \<noteq> [] \<and> filter extractionSucceeded evs \<noteq> [] \<and>
             filter normalizationSucceeded evs \<noteq> [] \<and> filter enrichmentSucceeded evs \<noteq> [])) \<and>
         (filter stageFailed evs \<noteq> [] \<longrightarrow>
            out = Returned \<and> filter isChangeMessageVisibility evs = [] \<and>
            filter isStageCall (tl (dropWhile (\<lambda>e. \<not> stageFailed e) evs)) = []) \<and>
         (GetObject b k (Inl err) \<in> set evs \<longrightarrow>
            filter isStageCall evs = [GetObject b k (Inl err)]) \<and>
         (Body message = Some body \<and> json_Unmarshal env body = Inr msgData \<and>
          assertString msgData ''s3Location'' = Some path \<and>
          assertString msgData ''user_id'' = Some userID \<and>
          assertString msgData ''screen_id'' = Some screenID \<and>
          \<not> lastRequestTimeMu st \<and> session_NewSession env awsRegion = None \<and>
          s3_GetObject env awsRegion s3Bucket path = Inr object \<and> readErr object = None \<and>
          parsing_SendPDF2Grobid env (content object) = Inr crude \<and>
          parsing_TidyUpGrobidResponse env crude = Inr tidy \<and>
          parsing_CrossReferenceData env (Doi tidy) = Inr xref \<longrightarrow>
            out = Returned \<and>
            filter isStageCall evs =
              [GetObject s3Bucket path (Inr object),
               SendPDF2Grobid (content object) (Inr crude),
               TidyUpGrobidResponse crude (Inr tidy),
               CrossReferenceData (Doi tidy) (Inr xref),
               TidyCrossRefData xref,
               ChangeMessageVisibility sqsURL (ReceiptHandle message) 30
                 (sqs_ChangeMessageVisibility env sqsURL (ReceiptHandle message) 30)])))"
proof (cases rule: processMessage_cases
    [where env = env and worker_id = worker_id and message = message and sqsURL = sqsURL
      and s3Bucket = s3Bucket and awsRegion = awsRegion and minGap = minGap and st = st])
  case nil_body
  then show ?thesis by simp
next
  case (bad_json undecoded failure)
  then show ?thesis by auto
next
  case (missing_field decoded fields key)
  then show ?thesis by auto
next
  case (held path userID screenID)
  then show ?thesis by simp
next
  case (gated decoded fields location user screen)
  let ?g = "st\<lparr>clockReads := Suc (clockReads st),
    trace := trace st @ gateEvents env worker_id minGap st location user screen\<rparr>"
  have "\<not> lastRequestTimeMu ?g"
    using gated(6) by simp
  then show ?thesis
    using gated(1-5)
    by (cases rule: runPipeline_cases
        [where st = ?g and env = env and awsRegion = awsRegion and message = message
          and sqsURL = sqsURL and s3Bucket = s3Bucket and path = location])
      (auto simp add: gated(6,7) newEvents_def split: option.splits)
qed

theorem stages_stop_at_first_failure_witness:
  "(case exampleRun envTidyFails messageA initial of
      (out, st') \<Rightarrow>
        filter stageFailed (trace st') =
          [TidyUpGrobidResponse ''<TEI/>'' (Inl (Error ''no TEI header''))] \<and>
        out = Returned \<and> filter isChangeMessageVisibility (trace st') = [] \<and>
        filter isStageCall (tl (dropWhile (\<lambda>e. \<not> stageFailed e) (trace st'))) = []) \<and>
   (case exampleRun envNotFound messageA initial of
      (out, st') \<Rightarrow>
        GetObject ''papers'' ''docs/1.pdf'' (Inl (Error ''NoSuchKey'')) \<in> set (trace st') \<and>
        filter isStageCall (trace st') =
          [GetObject ''papers'' ''docs/1.pdf'' (Inl (Error ''NoSuchKey''))]) \<and>
   (case exampleRun exampleEnv messageA initial of
      (out, st') \<Rightarrow>
        out = Returned \<and>
        filter isStageCall (trace st') =
          [GetObject ''papers'' ''docs/1.pdf'' (Inr objectA),
           SendPDF2Grobid (content objectA) (Inr ''<TEI/>''),
           TidyUpGrobidResponse ''<TEI/>'' (Inr \<lparr>Doi = ''10.1/x''\<rparr>),
           CrossReferenceData ''10.1/x'' (Inr ''{}''),
           TidyCrossRefData ''{}'',
           ChangeMessageVisibility ''https://sqs/queue'' (Some ''rh-1'') 30 None])"
proof -
  let ?mA = "[''s3Location'' \<mapsto> IString ''docs/1.pdf'', ''user_id'' \<mapsto> IString ''u1'',
    ''screen_id'' \<mapsto> IString ''s1'']"
  note inst =
    stages_stop_at_first_failure
      [where worker_id = 1 and message = messageA and sqsURL = "''https://sqs/queue''"
        and s3Bucket = "''papers''" and awsRegion = "''eu-west-2''" and minGap = 5000000000
        and st = initial and b = "''papers''" and k = "''docs/1.pdf''"
        and err = "Error ''NoSuchKey''" and body = bodyA and msgData = ?mA
        and path = "''docs/1.pdf''" and userID = "''u1''" and screenID = "''s1''"
        and object = objectA and crude = "''<TEI/>''" and tidy = "\<lparr>Doi = ''10.1/x''\<rparr>"
        and xref = "''{}''"]
  have decoded:
    "Body messageA = Some bodyA" "json_Unmarshal exampleEnv bodyA = Inr ?mA"
    "assertString ?mA ''s3Location'' = Some ''docs/1.pdf''"
    "assertString ?mA ''user_id'' = Some ''u1''" "assertString ?mA ''screen_id'' = Some ''s1''"
    by (simp_all add: example_decoding assertString_def)
  have services:
    "session_NewSession exampleEnv ''eu-west-2'' = None"
    "s3_GetObject exampleEnv ''eu-west-2'' ''papers'' ''docs/1.pdf'' = Inr objectA"
    "readErr objectA = None"
    "parsing_SendPDF2Grobid exampleEnv (content objectA) = Inr ''<TEI/>''"
    "parsing_TidyUpGrobidResponse exampleEnv ''<TEI/>'' = Inr \<lparr>Doi = ''10.1/x''\<rparr>"
    "parsing_CrossReferenceData exampleEnv ''10.1/x'' = Inr ''{}''"
    by (simp_all add: exampleEnv_def objectA_def)
  from inst [where env = envTidyFails]
  have tidy: "case exampleRun envTidyFails messageA initial of
      (out, st') \<Rightarrow>
        filter stageFailed (trace st') =
          [TidyUpGrobidResponse ''<TEI/>'' (Inl (Error ''no TEI header''))] \<and>
        out = Returned \<and> filter isChangeMessageVisibility (trace st') = [] \<and>
        filter isStageCall (tl (dropWhile (\<lambda>e. \<not> stageFailed e) (trace st'))) = []"
    by (simp add: run_tidyFails [unfolded exampleRun_def] run_tidyFails objectA_def
        example_projections)
  from inst [where env = envNotFound]
  have notFound: "case exampleRun envNotFound messageA initial of
      (out, st') \<Rightarrow>
        GetObject ''papers'' ''docs/1.pdf'' (Inl (Error ''NoSuchKey'')) \<in> set (trace st') \<and>
        filter isStageCall (trace st') =
          [GetObject ''papers'' ''docs/1.pdf'' (Inl (Error ''NoSuchKey''))]"
    by (simp add: run_notFound [unfolded exampleRun_def] run_notFound example_projections)
  from inst [where env = exampleEnv] decoded services
  have all: "case exampleRun exampleEnv messageA initial of
      (out, st') \<Rightarrow>
        out = Returned \<and>
        filter isStageCall (trace st') =
          [GetObject ''papers'' ''docs/1.pdf'' (Inr objectA),
           SendPDF2Grobid (content objectA) (Inr ''<TEI/>''),
           TidyUpGrobidResponse ''<TEI/>'' (Inr \<lparr>Doi = ''10.1/x''\<rparr>),
           CrossReferenceData ''10.1/x'' (Inr ''{}''),
           TidyCrossRefData ''{}'',
           ChangeMessageVisibility ''https://sqs/queue'' (Some ''rh-1'') 30 None]"
    by (simp add: run_scenarioA [unfolded exampleRun_def] run_scenarioA example_projections
        objectA_def)
  from tidy notFound all show ?thesis
    by simp
qed

section \<open>The rate gate\<close>

text \<open>
  C5. For every acquire of the rate gate with the mutex free: the acquire returns and
  leaves the shared timestamp as it was; when the elapsed time since the shared timestamp
  is below the minimum gap it sleeps once, for the minimum gap minus the elapsed time (in
  \<^verbatim>\<open>time.Duration\<close> arithmetic), and otherwise it does not sleep. When the clock is not
  behind the shared timestamp, the elapsed time is the difference of the two instants and
  the duration of the sleep is the minimum gap minus that difference, as integers. When
  the shared timestamp is the zero time, as it is in the initial state, and the clock is
  not before the Unix epoch, the acquire does not sleep, whatever the minimum gap.
\<close>

theorem rate_gate_sleeps_for_remainder:
  assumes "\<not> lastRequestTimeMu st"
  shows "(case acquireRateGate env worker_id minGap st of
      (out, st') \<Rightarrow>
        out = Returned \<and> lastRequestTime st' = lastRequestTime st \<and>
        filter isSleep (newEvents st st') =
          (if sint (elapsed env st) < sint minGap then [Sleep (minGap - elapsed env st)]
           else []) \<and>
        (lastRequestTime st \<le> clock env (clockReads st) \<and>
         sint (elapsed env st) < sint minGap \<longrightarrow>
           sint (elapsed env st) = clock env (clockReads st) - lastRequestTime st \<and>
           sint (minGap - elapsed env st) =
             sint minGap - (clock env (clockReads st) - lastRequestTime st)) \<and>
        (lastRequestTime st = 0 \<and> unixEpoch \<le> clock env (clockReads st) \<longrightarrow>
           filter isSleep (newEvents st st') = []))"
proof -
  let ?now = "clock env (clockReads st)"
  let ?last = "lastRequestTime st"
  have exact: "sint (elapsed env st) = ?now - ?last \<and>
      sint (minGap - elapsed env st) = sint minGap - (?now - ?last)"
    if le: "?last \<le> ?now" and lt: "sint (elapsed env st) < sint minGap"
  proof -
    have "\<not> 2 ^ 63 - 1 \<le> ?now - ?last"
    proof
      assume "2 ^ 63 - 1 \<le> ?now - ?last"
      then have "sint (elapsed env st) = 2 ^ 63 - 1"
        by (rule Time_Sub_saturates)
      with lt sint_Duration_le [of minGap] show False by simp
    qed
    with le have eq: "sint (elapsed env st) = ?now - ?last"
      by (intro sint_Time_Sub) simp_all
    with le lt have "sint (minGap - elapsed env st) = sint minGap - sint (elapsed env st)"
      by (intro sint_Duration_sub) simp_all
    with eq show ?thesis by simp
  qed
  have first: "\<not> sint (elapsed env st) < sint minGap"
    if zero: "?last = 0" and epoch: "unixEpoch \<le> ?now"
  proof -
    from zero epoch have "2 ^ 63 - 1 \<le> ?now - ?last"
      by (simp add: unixEpoch_def)
    then have "sint (elapsed env st) = 2 ^ 63 - 1"
      by (rule Time_Sub_saturates)
    with sint_Duration_le [of minGap] show ?thesis by simp
  qed
  from assms exact first show ?thesis
    by (simp add: gate_free)
qed

theorem rate_gate_sleeps_for_remainder_witness:
  "\<not> lastRequestTimeMu stampedRecently \<and>
   lastRequestTime stampedRecently \<le> clock exampleEnv (clockReads stampedRecently) \<and>
   sint (elapsed exampleEnv stampedRecently) < sint (5000000000 :: Duration) \<and>
   sint (elapsed exampleEnv stampedRecently) = 1000000000 \<and>
   filter isSleep
       (newEvents stampedRecently (snd (acquireRateGate exampleEnv 1 5000000000 stampedRecently))) =
     [Sleep 4000000000] \<and>
   \<not> lastRequestTimeMu (initial :: (string, string) state) \<and>
   lastRequestTime (initial :: (string, string) state) = 0 \<and>
   unixEpoch \<le> clock exampleEnv (clockReads (initial :: (string, string) state)) \<and>
   filter isSleep (newEvents initial (snd (acquireRateGate exampleEnv 1 5000000000 initial))) = []"
  using
    rate_gate_sleeps_for_remainder
      [where st = stampedRecently and env = exampleEnv and worker_id = 1
        and minGap = 5000000000]
    rate_gate_sleeps_for_remainder
      [where st = "initial :: (string, string) state" and env = exampleEnv and worker_id = 1
        and minGap = 5000000000]
  by (simp add: example_projections unixEpoch_def Time_Sub_def split: prod.splits)

section \<open>The visibility extension\<close>

text \<open>
  C6. For every message whose enrichment lookup succeeds, \<^verbatim>\<open>processMessage\<close> calls
  \<^verbatim>\<open>ChangeMessageVisibility\<close> exactly once, with the queue URL, the receipt handle of that
  message and a visibility timeout of 30; when the call fails, the one thing that follows
  is the log line of the failure, and when it succeeds nothing follows; in both cases
  \<^verbatim>\<open>processMessage\<close> returns normally.
\<close>

theorem visibility_extended_once:
  assumes "processMessage env worker_id message sqsURL s3Bucket awsRegion minGap st = (out, st')"
    and "filter enrichmentSucceeded (newEvents st st') \<noteq> []"
  shows "out = Returned \<and>
     filter isChangeMessageVisibility (newEvents st st') =
       [ChangeMessageVisibility sqsURL (ReceiptHandle message) 30
          (sqs_ChangeMessageVisibility env sqsURL (ReceiptHandle message) 30)] \<and>
     dropWhile (\<lambda>e. \<not> isChangeMessageVisibility e) (newEvents st st') =
       (case sqs_ChangeMessageVisibility env sqsURL (ReceiptHandle message) 30 of
          Some err \<Rightarrow>
            [ChangeMessageVisibility sqsURL (ReceiptHandle message) 30 (Some err),
             Log (ErrorPuttingBack err)]
        | None \<Rightarrow> [ChangeMessageVisibility sqsURL (ReceiptHandle message) 30 None])"
proof (cases rule: processMessage_cases
    [where env = env and worker_id = worker_id and message = message and sqsURL = sqsURL
      and s3Bucket = s3Bucket and awsRegion = awsRegion and minGap = minGap and st = st])
  case nil_body
  with assms show ?thesis by simp
next
  case (bad_json body err)
  with assms show ?thesis by auto
next
  case (missing_field body msgData key)
  with assms show ?thesis by simp
next
  case (held path userID screenID)
  with assms show ?thesis by auto
next
  case (gated body msgData path userID screenID)
  let ?g = "st\<lparr>clockReads := Suc (clockReads st),
    trace := trace st @ gateEvents env worker_id minGap st path userID screenID\<rparr>"
  have "\<not> lastRequestTimeMu ?g"
    using gated(6) by simp
  then show ?thesis
    using assms
    by (cases rule: runPipeline_cases
        [where st = ?g and env = env and awsRegion = awsRegion and message = message
          and sqsURL = sqsURL and s3Bucket = s3Bucket and path = path])
      (auto simp add: gated(7) newEvents_def split: option.splits if_splits)
qed

theorem visibility_extended_once_witness:
  "filter enrichmentSucceeded (newEvents initial (snd (exampleRun exampleEnv messageA initial)))
     \<noteq> [] \<and>
   fst (exampleRun exampleEnv messageA initial) = Returned \<and>
   filter isChangeMessageVisibility
       (newEvents initial (snd (exampleRun exampleEnv messageA initial))) =
     [ChangeMessageVisibility ''https://sqs/queue'' (Some ''rh-1'') 30 None] \<and>
   filter enrichmentSucceeded
       (newEvents initial (snd (exampleRun envExtensionFails messageA initial))) \<noteq> [] \<and>
   fst (exampleRun envExtensionFails messageA initial) = Returned \<and>
   dropWhile (\<lambda>e. \<not> isChangeMessageVisibility e)
       (newEvents initial (snd (exampleRun envExtensionFails messageA initial))) =
     [ChangeMessageVisibility ''https://sqs/queue'' (Some ''rh-1'') 30
        (Some (Error ''ReceiptHandleIsInvalid'')),
      Log (ErrorPuttingBack (Error ''ReceiptHandleIsInvalid''))]"
proof -
  let ?ok = "snd (exampleRun exampleEnv messageA initial)"
  let ?failed = "snd (exampleRun envExtensionFails messageA initial)"
  have run_ok:
    "processMessage exampleEnv 1 messageA ''https://sqs/queue'' ''papers'' ''eu-west-2''
       5000000000 initial = (Returned, ?ok)"
    by (simp add: run_scenarioA [unfolded exampleRun_def] run_scenarioA)
  have run_failed:
    "processMessage envExtensionFails 1 messageA ''https://sqs/queue'' ''papers'' ''eu-west-2''
       5000000000 initial = (Returned, ?failed)"
    by (simp add: run_extensionFails [unfolded exampleRun_def] run_extensionFails)
  have enriched_ok: "filter enrichmentSucceeded (newEvents initial ?ok) \<noteq> []"
    by (simp add: run_scenarioA newEvents_def example_projections)
  have enriched_failed: "filter enrichmentSucceeded (newEvents initial ?failed) \<noteq> []"
    by (simp add: run_extensionFails newEvents_def example_projections)
  from visibility_extended_once [OF run_ok enriched_ok]
    visibility_extended_once [OF run_failed enriched_failed]
    enriched_ok enriched_failed
  show ?thesis
    by (simp add: run_scenarioA run_extensionFails example_projections)
qed

section \<open>The mutex and the sleep\<close>

text \<open>
  C7. In every call of \<^verbatim>\<open>processMessage\<close> the events keep the lock discipline, started
  with the mutex not held by the caller: the shared timestamp is read (by the gate) and
  written (by the stamp) only between a lock and its unlock, and the sleep, like every
  call and log line, happens while the caller does not hold the mutex; a call that starts
  with the mutex free and is not blocked ends with the mutex free. For two workers that
  run lines 84 to 92 concurrently, started with the mutex free, under any schedule: the
  mutex is held exactly when one of them is between its lock and its unlock, and never by
  both. Whenever worker A is inside its sleep and worker B is about to lock, the mutex is
  free, and B can take the four steps of its acquire while A stays asleep; they end past
  the gate when the gap is satisfied for B, and inside a sleep of its own otherwise, and
  they are the acquire that \<open>acquireRateGate\<close> computes, which returns. A worker that finds
  the mutex held cannot take the step of the lock.
\<close>

theorem mutex_not_held_across_sleep:
  "(case processMessage env worker_id message sqsURL s3Bucket awsRegion minGap st of
      (out, st') \<Rightarrow>
        lockDiscipline False (newEvents st st') \<and>
        (\<not> lastRequestTimeMu st \<and> out \<noteq> Blocked \<longrightarrow> \<not> lastRequestTimeMu st')) \<and>
   (\<not> lastRequestTimeMu st \<and>
    runWorkers env minGap schedule (AtLock, AtLock, st) = Some (pcA, pcB, stAB) \<longrightarrow>
      mutexInvariant (pcA, pcB, stAB) \<and>
      (isAtSleep pcA \<and> pcB = AtLock \<longrightarrow>
         \<not> lastRequestTimeMu stAB \<and>
         runWorkers env minGap [WorkerB, WorkerB, WorkerB, WorkerB] (pcA, pcB, stAB) =
           Some (pcA,
             (if sint (elapsed env stAB) < sint minGap
              then AtSleep (minGap - elapsed env stAB) else PastGate),
             snd (acquireRateGate env 2 minGap stAB)) \<and>
         fst (acquireRateGate env 2 minGap stAB) = Returned)) \<and>
   (lastRequestTimeMu st \<longrightarrow>
      gateStep env 2 minGap AtLock st = None \<and>
      acquireRateGate env 2 minGap st = (Blocked, st))"
proof (intro conjI impI)
  show "case processMessage env worker_id message sqsURL s3Bucket awsRegion minGap st of
      (out, st') \<Rightarrow>
        lockDiscipline False (newEvents st st') \<and>
        (\<not> lastRequestTimeMu st \<and> out \<noteq> Blocked \<longrightarrow> \<not> lastRequestTimeMu st')"
  proof (cases rule: processMessage_cases
      [where env = env and worker_id = worker_id and message = message and sqsURL = sqsURL
        and s3Bucket = s3Bucket and awsRegion = awsRegion and minGap = minGap and st = st])
    case nil_body
    then show ?thesis by simp
  next
    case (bad_json body err)
    then show ?thesis by simp
  next
    case (missing_field body msgData key)
    then show ?thesis by simp
  next
    case (held path userID screenID)
    then show ?thesis by simp
  next
    case (gated body msgData path userID screenID)
    let ?g = "st\<lparr>clockReads := Suc (clockReads st),
      trace := trace st @ gateEvents env worker_id minGap st path userID screenID\<rparr>"
    have "\<not> lastRequestTimeMu ?g"
      using gated(6) by simp
    then show ?thesis
      by (cases rule: runPipeline_cases
          [where st = ?g and env = env and awsRegion = awsRegion and message = message
            and sqsURL = sqsURL and s3Bucket = s3Bucket and path = path])
        (auto simp add: gated(6,7) newEvents_def split: option.splits)
  qed
next
  assume run: "\<not> lastRequestTimeMu st \<and>
    runWorkers env minGap schedule (AtLock, AtLock, st) = Some (pcA, pcB, stAB)"
  then have "mutexInvariant (AtLock, AtLock, st)"
    by (simp add: mutexInvariant_def)
  with run show inv: "mutexInvariant (pcA, pcB, stAB)"
    using runWorkers_invariant by blast
  assume asleep: "isAtSleep pcA \<and> pcB = AtLock"
  with inv show free: "\<not> lastRequestTimeMu stAB"
    by (cases pcA) (simp_all add: mutexInvariant_def)
  from asleep four_steps_acquire(1) [OF free]
  show "runWorkers env minGap [WorkerB, WorkerB, WorkerB, WorkerB] (pcA, pcB, stAB) =
      Some (pcA,
        (if sint (elapsed env stAB) < sint minGap
         then AtSleep (minGap - elapsed env stAB) else PastGate),
        snd (acquireRateGate env 2 minGap stAB))"
    by simp
  from free show "fst (acquireRateGate env 2 minGap stAB) = Returned"
    by (simp add: gate_free)
next
  assume held: "lastRequestTimeMu st"
  then show "gateStep env 2 minGap AtLock st = None"
    by (simp add: Mutex_Lock_def)
  from held show "acquireRateGate env 2 minGap st = (Blocked, st)"
    by (rule gate_held)
qed

theorem mutex_not_held_across_sleep_witness:
  "\<not> lastRequestTimeMu stampedRecently \<and>
   fst (exampleRun exampleEnv messageA stampedRecently) \<noteq> Blocked \<and>
   lockDiscipline False
     (newEvents stampedRecently (snd (exampleRun exampleEnv messageA stampedRecently))) \<and>
   \<not> lastRequestTimeMu (snd (exampleRun exampleEnv messageA stampedRecently)) \<and>
   (case runWorkers envSlowClock 5000000000 [WorkerA, WorkerA, WorkerA, WorkerA]
           (AtLock, AtLock, stampedRecently) of
      None \<Rightarrow> False
    | Some (pcA, pcB, stAB) \<Rightarrow>
        pcA = AtSleep 4000000000 \<and> pcB = AtLock \<and> \<not> lastRequestTimeMu stAB \<and>
        last (trace stAB) = Sleep 4000000000 \<and>
        runWorkers envSlowClock 5000000000 [WorkerB, WorkerB, WorkerB, WorkerB]
            (pcA, pcB, stAB) =
          Some (pcA, PastGate, snd (acquireRateGate envSlowClock 2 5000000000 stAB)) \<and>
        newEvents stAB (snd (acquireRateGate envSlowClock 2 5000000000 stAB)) =
          [MutexLock, ReadLastRequestTime 63899999999000000000, MutexUnlock]) \<and>
   lastRequestTimeMu mutexHeld \<and>
   gateStep exampleEnv 2 5000000000 AtLock mutexHeld = None \<and>
   acquireRateGate exampleEnv 2 5000000000 mutexHeld = (Blocked, mutexHeld)"
proof -
  let ?stA = "stampedRecently\<lparr>clockReads := Suc 0,
    trace := [MutexLock, ReadLastRequestTime 63899999999000000000, MutexUnlock,
      Log (WorkerSleeping 1 4000000000), Sleep 4000000000]\<rparr>"
  have free: "\<not> lastRequestTimeMu stampedRecently"
    by (simp add: example_projections)
  have stepsA:
    "runWorkers envSlowClock 5000000000 [WorkerA, WorkerA, WorkerA, WorkerA]
       (AtLock, AtLock, stampedRecently) = Some (AtSleep 4000000000, AtLock, ?stA)"
    by (subst four_steps_acquire(2) [OF free])
      (simp add: gate_free example_projections Time_Sub_def)
  have gateB: "acquireRateGate envSlowClock 2 5000000000 ?stA =
      (Returned,
       ?stA\<lparr>clockReads := 2,
         trace := trace ?stA @
           [MutexLock, ReadLastRequestTime 63899999999000000000, MutexUnlock]\<rparr>)"
    by (simp add: gate_free example_projections Time_Sub_def)
  have held: "lastRequestTimeMu mutexHeld"
    by (simp add: mutexHeld_def)
  from
    mutex_not_held_across_sleep
      [where env = exampleEnv and worker_id = 1 and message = messageA
        and sqsURL = "''https://sqs/queue''" and s3Bucket = "''papers''"
        and awsRegion = "''eu-west-2''" and minGap = 5000000000 and st = stampedRecently
        and schedule = "[]" and pcA = AtLock and pcB = AtLock and stAB = stampedRecently]
  have run: "lockDiscipline False
      (newEvents stampedRecently (snd (exampleRun exampleEnv messageA stampedRecently))) \<and>
    \<not> lastRequestTimeMu (snd (exampleRun exampleEnv messageA stampedRecently))"
    by (simp add: run_stampedRecently [unfolded exampleRun_def] run_stampedRecently
        example_projections)
  from
    mutex_not_held_across_sleep
      [where env = envSlowClock and worker_id = 1 and message = messageA
        and sqsURL = "''https://sqs/queue''" and s3Bucket = "''papers''"
        and awsRegion = "''eu-west-2''" and minGap = 5000000000 and st = stampedRecently
        and schedule = "[WorkerA, WorkerA, WorkerA, WorkerA]" and pcA = "AtSleep 4000000000"
        and pcB = AtLock and stAB = ?stA]
    free
  have workers: "\<not> lastRequestTimeMu ?stA \<and>
    runWorkers envSlowClock 5000000000 [WorkerB, WorkerB, WorkerB, WorkerB]
        (AtSleep 4000000000, AtLock, ?stA) =
      Some (AtSleep 4000000000, PastGate, snd (acquireRateGate envSlowClock 2 5000000000 ?stA))"
    by (simp add: stepsA example_projections Time_Sub_def del: runWorkers.simps)
  from
    mutex_not_held_across_sleep
      [where env = exampleEnv and worker_id = 1 and message = messageA
        and sqsURL = "''https://sqs/queue''" and s3Bucket = "''papers''"
        and awsRegion = "''eu-west-2''" and minGap = 5000000000 and st = mutexHeld
        and schedule = "[]" and pcA = AtLock and pcB = AtLock and stAB = mutexHeld]
    held
  have blocked: "gateStep exampleEnv 2 5000000000 AtLock mutexHeld = None \<and>
    acquireRateGate exampleEnv 2 5000000000 mutexHeld = (Blocked, mutexHeld)"
    by simp
  from run workers blocked held free show ?thesis
    by (simp add: stepsA gateB run_stampedRecently newEvents_def del: runWorkers.simps)
qed

section \<open>The object fetch\<close>

text \<open>
  C8. For every bucket and key, \<^verbatim>\<open>downloadFileFromS3\<close> calls \<^verbatim>\<open>GetObject\<close> once (no retry).
  When the call fails, no stream was opened: the function touches no stream and returns
  the error and no bytes. When it succeeds, the function reads the body once and then
  closes that same body once, whether the read succeeded or failed, and the close is in
  the trace when the function returns; a read error is returned with no bytes, and a
  successful read returns the whole content and no error.
\<close>

theorem downloadFileFromS3_releases_stream:
  "(case downloadFileFromS3 env s3Svc bucket path st of
      ((fileContent, err), st') \<Rightarrow>
        trace st' = trace st @ newEvents st st' \<and>
        filter isGetObject (newEvents st st') =
          [GetObject bucket path (s3_GetObject env s3Svc bucket path)] \<and>
        (case s3_GetObject env s3Svc bucket path of
           Inl e \<Rightarrow>
             fileContent = None \<and> err = Some e \<and> filter isStreamOp (newEvents st st') = []
         | Inr body \<Rightarrow>
             filter isStreamOp (newEvents st st') = [ReadAll body, BodyClose body] \<and>
             (case readErr body of
                Some e \<Rightarrow> fileContent = None \<and> err = Some e
              | None \<Rightarrow> fileContent = Some (content body) \<and> err = None)))"
proof (cases "s3_GetObject env s3Svc bucket path")
  case (Inl e)
  then show ?thesis
    by (simp add: download_GetObject_fails newEvents_def)
next
  case (Inr opened)
  then show ?thesis
    by (simp add: download_opened newEvents_def split: option.splits)
qed

section \<open>When the shared timestamp changes\<close>

text \<open>
  C9. For every message, environment and state: when the fetch, the extraction, the
  normalization and the enrichment lookup have all been called and have all succeeded,
  \<^verbatim>\<open>processMessage\<close> writes the shared timestamp exactly once; in every other case, whether
  the message failed to decode or a stage failed, it never writes the timestamp, and the
  timestamp after the call is the timestamp before it.
\<close>

theorem timestamp_written_only_on_full_success:
  "(case processMessage env worker_id message sqsURL s3Bucket awsRegion minGap st of
      (out, st') \<Rightarrow>
        (let evs = newEvents st st' in
         (filter fetchSucceeded evs \<noteq> [] \<and> filter extractionSucceeded evs \<noteq> [] \<and>
          filter normalizationSucceeded evs \<noteq> [] \<and> filter enrichmentSucceeded evs \<noteq> [] \<longrightarrow>
            filter isStamp evs = [WriteLastRequestTime (lastRequestTime st')]) \<and>
         (filter fetchSucceeded evs = [] \<or> filter extractionSucceeded evs = [] \<or>
          filter normalizationSucceeded evs = [] \<or> filter enrichmentSucceeded evs = [] \<longrightarrow>
            filter isStamp evs = [] \<and> lastRequestTime st' = lastRequestTime st)))"
proof (cases rule: processMessage_cases
    [where env = env and worker_id = worker_id and message = message and sqsURL = sqsURL
      and s3Bucket = s3Bucket and awsRegion = awsRegion and minGap = minGap and st = st])
  case nil_body
  then show ?thesis by simp
next
  case (bad_json body err)
  then show ?thesis by simp
next
  case (missing_field body msgData key)
  then show ?thesis by simp
next
  case (held path userID screenID)
  then show ?thesis by simp
next
  case (gated body msgData path userID screenID)
  let ?g = "st\<lparr>clockReads := Suc (clockReads st),
    trace := trace st @ gateEvents env worker_id minGap st path userID screenID\<rparr>"
  have "\<not> lastRequestTimeMu ?g"
    using gated(6) by simp
  then show ?thesis
    by (cases rule: runPipeline_cases
        [where st = ?g and env = env and awsRegion = awsRegion and message = message
          and sqsURL = sqsURL and s3Bucket = s3Bucket and path = path])
      (auto simp add: gated(7) newEvents_def split: option.splits)
qed

theorem timestamp_written_only_on_full_success_witness:
  "(case exampleRun exampleEnv messageA initial of
      (out, st') \<Rightarrow>
        filter fetchSucceeded (trace st') \<noteq> [] \<and> filter extractionSucceeded (trace st') \<noteq> [] \<and>
        filter normalizationSucceeded (trace st') \<noteq> [] \<and>
        filter enrichmentSucceeded (trace st') \<noteq> [] \<and>
        filter isStamp (trace st') = [WriteLastRequestTime 63900000001000000000]) \<and>
   (case exampleRun envTidyFails messageA initial of
      (out, st') \<Rightarrow>
        filter normalizationSucceeded (trace st') = [] \<and>
        filter isStamp (trace st') = [] \<and> lastRequestTime st' = lastRequestTime initial)"
  using
    timestamp_written_only_on_full_success
      [where env = exampleEnv and worker_id = 1 and message = messageA
        and sqsURL = "''https://sqs/queue''" and s3Bucket = "''papers''"
        and awsRegion = "''eu-west-2''" and minGap = 5000000000 and st = initial]
    timestamp_written_only_on_full_success
      [where env = envTidyFails and worker_id = 1 and message = messageA
        and sqsURL = "''https://sqs/queue''" and s3Bucket = "''papers''"
        and awsRegion = "''eu-west-2''" and minGap = 5000000000 and st = initial]
  by (simp add: run_scenarioA [unfolded exampleRun_def] run_tidyFails [unfolded exampleRun_def]
      run_scenarioA run_tidyFails objectA_def example_projections)

section \<open>What the calls depend on\<close>

text \<open>
  C10. Take two messages that both decode, with the same \<^verbatim>\<open>s3Location\<close> and the same
  receipt handle, and any \<^verbatim>\<open>user_id\<close> and \<^verbatim>\<open>screen_id\<close>, processed from the same state in
  the same environment. The two calls of \<^verbatim>\<open>processMessage\<close> end the same way and leave the
  same shared timestamp; their events differ in the first one alone, the line that
  reports the decoded message, so the stage calls of the two are the same. Moreover every
  \<^verbatim>\<open>GetObject\<close> call is for the configured bucket and the \<^verbatim>\<open>s3Location\<close>, every extraction
  call sends the content of the object that this fetch returned, and every enrichment
  lookup is for the \<^verbatim>\<open>Doi\<close> of the normalized result of an extraction of this message.
\<close>

theorem ids_do_not_reach_calls:
  assumes m1: "Body message1 = Some body1" "json_Unmarshal env body1 = Inr msgData1"
      "assertString msgData1 ''s3Location'' = Some path"
      "assertString msgData1 ''user_id'' = Some userID1"
      "assertString msgData1 ''screen_id'' = Some screenID1"
    and m2: "Body message2 = Some body2" "json_Unmarshal env body2 = Inr msgData2"
      "assertString msgData2 ''s3Location'' = Some path"
      "assertString msgData2 ''user_id'' = Some userID2"
      "assertString msgData2 ''screen_id'' = Some screenID2"
    and handle: "ReceiptHandle message1 = ReceiptHandle message2"
  shows "(case (processMessage env worker_id message1 sqsURL s3Bucket awsRegion minGap st,
            processMessage env worker_id message2 sqsURL s3Bucket awsRegion minGap st) of
      ((out1, st1), (out2, st2)) \<Rightarrow>
        out1 = out2 \<and> lastRequestTime st1 = lastRequestTime st2 \<and>
        newEvents st st1 =
          Log (WorkerReceived worker_id path userID1 screenID1) # tl (newEvents st st1) \<and>
        newEvents st st2 =
          Log (WorkerReceived worker_id path userID2 screenID2) # tl (newEvents st st1) \<and>
        filter isStageCall (newEvents st st1) = filter isStageCall (newEvents st st2) \<and>
        (GetObject b k fetched \<in> set (newEvents st st1) \<longrightarrow>
           b = s3Bucket \<and> k = path \<and> fetched = s3_GetObject env awsRegion s3Bucket path) \<and>
        (SendPDF2Grobid pdf extracted \<in> set (newEvents st st1) \<longrightarrow>
           (\<exists>body. s3_GetObject env awsRegion s3Bucket path = Inr body \<and> pdf = content body) \<and>
           extracted = parsing_SendPDF2Grobid env pdf) \<and>
        (CrossReferenceData doi enriched \<in> set (newEvents st st1) \<longrightarrow>
           (\<exists>sent crude tidy.
              SendPDF2Grobid sent (Inr crude) \<in> set (newEvents st st1) \<and>
              parsing_TidyUpGrobidResponse env crude = Inr tidy \<and> doi = Doi tidy) \<and>
           enriched = parsing_CrossReferenceData env doi))"
proof (cases "lastRequestTimeMu st")
  case True
  show ?thesis
    by (simp add: processMessage_held [OF m1 True] processMessage_held [OF m2 True])
next
  case False
  let ?g1 = "st\<lparr>clockReads := Suc (clockReads st),
    trace := trace st @ gateEvents env worker_id minGap st path userID1 screenID1\<rparr>"
  let ?g2 = "st\<lparr>clockReads := Suc (clockReads st),
    trace := trace st @ gateEvents env worker_id minGap st path userID2 screenID2\<rparr>"
  note pm = processMessage_decoded [OF m1 False] processMessage_decoded [OF m2 False]
  have free1: "\<not> lastRequestTimeMu ?g1" and free2: "\<not> lastRequestTimeMu ?g2"
    using False by simp_all
  from free1 show ?thesis
  proof (cases rule: runPipeline_cases
      [where st = ?g1 and env = env and awsRegion = awsRegion and message = message1
        and sqsURL = sqsURL and s3Bucket = s3Bucket and path = path])
    case (session_fails err)
    then show ?thesis
      by (simp add: pm pipeline_session_fails newEvents_def)
  next
    case (GetObject_fails err)
    then show ?thesis
      by (simp add: pm pipeline_GetObject_fails newEvents_def)
  next
    case (read_fails body err)
    then show ?thesis
      by (auto simp add: pm pipeline_read_fails newEvents_def split: option.splits)
  next
    case (extract_fails body err)
    then show ?thesis
      by (auto simp add: pm pipeline_extract_fails newEvents_def split: option.splits)
  next
    case (tidy_fails body crude err)
    then show ?thesis
      by (auto simp add: pm pipeline_tidy_fails newEvents_def split: option.splits)
  next
    case (enrich_fails body crude tidy err)
    then show ?thesis
      by (auto simp add: pm pipeline_enrich_fails newEvents_def split: option.splits)
  next
    case (all_ok body crude tidy xref ext)
    note ok2 = pipeline_all_ok [OF all_ok(1-6) all_ok(7) [unfolded handle] free2]
    from all_ok ok2 show ?thesis
      by (auto simp add: pm handle newEvents_def split: option.splits)
  qed
qed

theorem ids_do_not_reach_calls_witness:
  "(case (exampleRun exampleEnv messageA initial, exampleRun exampleEnv messageB initial) of
      ((out1, st1), (out2, st2)) \<Rightarrow>
        out1 = out2 \<and> lastRequestTime st1 = lastRequestTime st2 \<and>
        hd (trace st1) = Log (WorkerReceived 1 ''docs/1.pdf'' ''u1'' ''s1'') \<and>
        hd (trace st2) = Log (WorkerReceived 1 ''docs/1.pdf'' ''u2'' ''s2'') \<and>
        tl (trace st1) = tl (trace st2) \<and>
        filter isStageCall (trace st1) = filter isStageCall (trace st2) \<and>
        GetObject ''papers'' ''docs/1.pdf'' (Inr objectA) \<in> set (trace st1) \<and>
        SendPDF2Grobid (content objectA) (Inr ''<TEI/>'') \<in> set (trace st1) \<and>
        CrossReferenceData ''10.1/x'' (Inr ''{}'') \<in> set (trace st1))"
proof -
  let ?mA = "[''s3Location'' \<mapsto> IString ''docs/1.pdf'', ''user_id'' \<mapsto> IString ''u1'',
    ''screen_id'' \<mapsto> IString ''s1'']"
  let ?mB = "[''s3Location'' \<mapsto> IString ''docs/1.pdf'', ''user_id'' \<mapsto> IString ''u2'',
    ''screen_id'' \<mapsto> IString ''s2'']"
  have a: "assertString ?mA ''s3Location'' = Some ''docs/1.pdf''"
    "assertString ?mA ''user_id'' = Some ''u1''" "assertString ?mA ''screen_id'' = Some ''s1''"
    by (simp_all add: assertString_def)
  have b: "assertString ?mB ''s3Location'' = Some ''docs/1.pdf''"
    "assertString ?mB ''user_id'' = Some ''u2''" "assertString ?mB ''screen_id'' = Some ''s2''"
    by (simp_all add: assertString_def)
  have h: "ReceiptHandle messageA = ReceiptHandle messageB"
    by (simp add: example_projections example_decoding)
  from ids_do_not_reach_calls
    [OF example_decoding(1) example_decoding(4) a example_decoding(2) example_decoding(5) b h,
      where worker_id = 1 and sqsURL = "''https://sqs/queue''" and s3Bucket = "''papers''"
        and awsRegion = "''eu-west-2''" and minGap = 5000000000 and st = initial
        and b = "''papers''" and k = "''docs/1.pdf''" and fetched = "Inr objectA"
        and pdf = "content objectA" and extracted = "Inr ''<TEI/>''"
        and doi = "''10.1/x''" and enriched = "Inr ''{}''"]
  show ?thesis
    by (simp add: run_scenarioA [unfolded exampleRun_def]
        run_messageB [unfolded exampleRun_def] run_scenarioA run_messageB
        example_projections objectA_def)
qed

end
